theory Spec2Isabelle
  imports Main "HOL-Library.Product_Lexorder" "HOL-Library.Log_Nat"
begin

section \<open>Python values\<close>

text \<open>
  A Python \<open>float\<close> is an IEEE-754 double: a finite value (a rational number, here
  of type \<open>real\<close>), an infinity or a NaN. The sign of zero is not kept: nothing in the modelled code can tell the two zeros
  apart (\<open>int\<close> and the comparisons treat them alike).
\<close>

datatype pyfloat = Finite real | PosInf | NegInf | NaN

text \<open>
  Exceptions carry their class and the text \<open>str(ex)\<close> gives. \<open>KeyboardInterrupt\<close> and
  \<open>SystemExit\<close> derive from \<open>BaseException\<close> only; every other class derives from
  \<open>Exception\<close>, so \<open>except Exception\<close> catches exactly those.
\<close>

datatype exc_class =
    FileNotFoundError | ValueError | RuntimeError | OverflowError | ZeroDivisionError
  | OSError | OtherError | KeyboardInterrupt | SystemExit

datatype exc = Exc exc_class string

fun exc_class_of :: "exc \<Rightarrow> exc_class" where
  "exc_class_of (Exc c m) = c"

fun str_of_exc :: "exc \<Rightarrow> string" where
  "str_of_exc (Exc c m) = m"

fun is_Exception :: "exc \<Rightarrow> bool" where
  "is_Exception (Exc KeyboardInterrupt m) = False"
| "is_Exception (Exc SystemExit m) = False"
| "is_Exception (Exc c m) = True"

section \<open>The job store (postgres\_job\_repository.py)\<close>

text \<open>
  The tables are lists of rows in insertion order. Identifiers (\<open>uuid\<close> columns, passed
  around as text) are strings, timestamps are integers (microseconds), \<open>NULL\<close> is
  \<open>None\<close>. The values the server supplies, \<open>NOW()\<close> and the generated \<open>id\<close> of an
  inserted row, are parameters of the operations. Every operation opens its own connection;
  the parameter \<open>sid\<close> of the leasing read names that session, and \<open>row_locks\<close> holds
  the row locks that sessions currently own.
\<close>

record job_row =
  j_id :: string
  input_object_key :: string
  output_prefix :: string
  params_fps :: "pyfloat option"
  params_modelId :: "string option"
  status :: string
  priority :: int
  created_at :: int
  progress_percent :: int
  error_code :: "string option"
  error_message :: "string option"
  started_at :: "int option"
  finished_at :: "int option"

record attempt_row =
  a_id :: string
  a_job_id :: string
  attempt_no :: int
  worker_id :: string
  a_status :: string
  a_started_at :: "int option"
  a_finished_at :: "int option"
  exit_code :: "int option"
  a_error_message :: "string option"

record artifact_row =
  f_job_id :: string
  f_type :: string
  f_object_key :: string
  f_content_type :: "string option"
  f_size_bytes :: "int option"
  f_created_at :: int

record database =
  jobs :: "job_row list"
  job_attempts :: "attempt_row list"
  artifacts :: "artifact_row list"
  row_locks :: "(string \<times> nat) list"

record video_job =
  job_id :: string
  v_input_object_key :: string
  v_output_prefix :: string
  fps :: pyfloat
  model_id :: string

record job_attempt_info =
  attempt_id :: string
  i_attempt_no :: int

subsection \<open>fetch\_next\_queued\_job\<close>

definition locked_by_other :: "nat \<Rightarrow> database \<Rightarrow> string \<Rightarrow> bool" where
  "locked_by_other sid db jid = (\<exists>l \<in> set (row_locks db). fst l = jid \<and> snd l \<noteq> sid)"

text \<open>\<open>COALESCE(fps, 2.0)\<close> and \<open>COALESCE(modelId, default)\<close> of the select list.\<close>

definition video_job_of :: "job_row \<Rightarrow> video_job" where
  "video_job_of j =
     \<lparr> job_id = j_id j,
       v_input_object_key = input_object_key j,
       v_output_prefix = output_prefix j,
       fps = (case params_fps j of None \<Rightarrow> Finite 2 | Some f \<Rightarrow> f),
       model_id = (case params_modelId j of
                     None \<Rightarrow> ''depth-anything/da3nested-giant-large''
                   | Some m \<Rightarrow> m) \<rparr>"

text \<open>
  \<open>WHERE status = 'queued' ORDER BY priority DESC, created_at ASC FOR UPDATE SKIP LOCKED
  LIMIT 1\<close>: the queued rows that no other session has locked, in the order of the key
  \<open>(- priority, created_at)\<close>; the first one, if any, is locked for the session and
  returned.
\<close>

definition select_for_update_skip_locked :: "nat \<Rightarrow> database \<Rightarrow> job_row option \<times> database" where
  "select_for_update_skip_locked sid db =
     (case sort_key (\<lambda>j. (- priority j, created_at j))
             (filter (\<lambda>j. status j = ''queued'' \<and> \<not> locked_by_other sid db (j_id j)) (jobs db)) of
        [] \<Rightarrow> (None, db)
      | j # rest \<Rightarrow> (Some j, db\<lparr>row_locks := (j_id j, sid) # row_locks db\<rparr>))"

text \<open>\<open>conn.commit()\<close> ends the transaction: the session's row locks are released.\<close>

definition commit :: "nat \<Rightarrow> database \<Rightarrow> database" where
  "commit sid db = db\<lparr>row_locks := filter (\<lambda>l. snd l \<noteq> sid) (row_locks db)\<rparr>"

definition fetch_next_queued_job ::
  "nat \<Rightarrow> string \<Rightarrow> database \<Rightarrow> video_job option \<times> database" where
  "fetch_next_queued_job sid worker_key db =
     (case select_for_update_skip_locked sid db of
        (row, db1) \<Rightarrow>
          (let db2 = commit sid db1
           in (case row of None \<Rightarrow> (None, db2) | Some j \<Rightarrow> (Some (video_job_of j), db2))))"

subsection \<open>start\_job\_attempt\<close>

text \<open>\<open>MAX\<close> over the selected values: \<open>NULL\<close> when there is none.\<close>

fun sql_max :: "int list \<Rightarrow> int option" where
  "sql_max [] = None"
| "sql_max (n # ns) = Some (fold max ns n)"

definition attempt_nos :: "database \<Rightarrow> string \<Rightarrow> int list" where
  "attempt_nos db jid = map attempt_no (filter (\<lambda>a. a_job_id a = jid) (job_attempts db))"

definition next_attempt_no :: "database \<Rightarrow> string \<Rightarrow> int" where
  "next_attempt_no db jid = (case sql_max (attempt_nos db jid) of None \<Rightarrow> 0 | Some m \<Rightarrow> m) + 1"

definition start_job_row :: "int \<Rightarrow> job_row \<Rightarrow> job_row" where
  "start_job_row now j =
     j\<lparr> status := ''running'',
        progress_percent := 0,
        error_code := None,
        error_message := None,
        started_at := (case started_at j of None \<Rightarrow> Some now | Some t \<Rightarrow> Some t),
        finished_at := None \<rparr>"

definition start_job_attempt ::
  "int \<Rightarrow> string \<Rightarrow> string \<Rightarrow> string \<Rightarrow> database \<Rightarrow> job_attempt_info \<times> database" where
  "start_job_attempt now new_id jid wid db =
     (let n = next_attempt_no db jid;
          row = \<lparr> a_id = new_id, a_job_id = jid, attempt_no = n, worker_id = wid,
                  a_status = ''running'', a_started_at = Some now, a_finished_at = None,
                  exit_code = None, a_error_message = None \<rparr>
      in (\<lparr> attempt_id = new_id, i_attempt_no = n \<rparr>,
          db\<lparr> job_attempts := job_attempts db @ [row],
              jobs := map (\<lambda>j. if j_id j = jid then start_job_row now j else j) (jobs db) \<rparr>))"

subsection \<open>update\_progress\<close>

definition safe_percent :: "int \<Rightarrow> int" where
  "safe_percent p = (let s = p; s = (if s < 0 then 0 else s); s = (if s > 100 then 100 else s) in s)"

definition update_progress :: "string \<Rightarrow> int \<Rightarrow> database \<Rightarrow> database" where
  "update_progress jid p db =
     db\<lparr> jobs := map (\<lambda>j. if j_id j = jid then j\<lparr>progress_percent := safe_percent p\<rparr> else j)
                     (jobs db) \<rparr>"

subsection \<open>add\_artifact, mark\_job\_succeeded, mark\_job\_failed\<close>

definition add_artifact ::
  "int \<Rightarrow> string \<Rightarrow> string \<Rightarrow> string \<Rightarrow> string option \<Rightarrow> int option \<Rightarrow> database \<Rightarrow> database" where
  "add_artifact now jid ty key ct sz db =
     db\<lparr> artifacts := artifacts db @
           [\<lparr> f_job_id = jid, f_type = ty, f_object_key = key, f_content_type = ct,
              f_size_bytes = sz, f_created_at = now \<rparr>] \<rparr>"

definition mark_job_succeeded :: "int \<Rightarrow> string \<Rightarrow> string \<Rightarrow> database \<Rightarrow> database" where
  "mark_job_succeeded now jid aid db =
     db\<lparr> job_attempts :=
           map (\<lambda>a. if a_id a = aid
                    then a\<lparr> a_status := ''succeeded'', a_finished_at := Some now,
                            exit_code := Some 0, a_error_message := None \<rparr>
                    else a) (job_attempts db),
         jobs :=
           map (\<lambda>j. if j_id j = jid
                    then j\<lparr> status := ''succeeded'', progress_percent := 100,
                            error_code := None, error_message := None,
                            finished_at := Some now \<rparr>
                    else j) (jobs db) \<rparr>"

text \<open>\<open>error_message[:4000]\<close>: the first 4000 characters.\<close>

definition truncated_message :: "string \<Rightarrow> string" where
  "truncated_message m = take 4000 m"

definition fail_attempt_row :: "int \<Rightarrow> int option \<Rightarrow> string \<Rightarrow> attempt_row \<Rightarrow> attempt_row" where
  "fail_attempt_row now ec m a =
     a\<lparr> a_status := ''failed'', a_finished_at := Some now, exit_code := ec,
        a_error_message := Some (truncated_message m) \<rparr>"

definition fail_job_row :: "int \<Rightarrow> string option \<Rightarrow> string \<Rightarrow> job_row \<Rightarrow> job_row" where
  "fail_job_row now code m j =
     j\<lparr> status := ''failed'', error_code := code,
        error_message := Some (truncated_message m), finished_at := Some now \<rparr>"

definition mark_job_failed ::
  "int \<Rightarrow> string \<Rightarrow> string option \<Rightarrow> string option \<Rightarrow> string \<Rightarrow> int option \<Rightarrow> database \<Rightarrow> database" where
  "mark_job_failed now jid aid code m ec db =
     (let db1 = (case aid of
                   None \<Rightarrow> db
                 | Some a \<Rightarrow>
                     db\<lparr> job_attempts :=
                          map (\<lambda>r. if a_id r = a then fail_attempt_row now ec m r else r)
                              (job_attempts db) \<rparr>)
      in db1\<lparr> jobs := map (\<lambda>j. if j_id j = jid then fail_job_row now code m j else j)
                          (jobs db1) \<rparr>)"

subsection \<open>Sequences of repository calls\<close>

text \<open>
  The writes a worker can issue, as data, so that properties of every state the store can
  reach through the repository are statements about \<open>run_calls\<close>.
\<close>

datatype repo_call =
    CFetch nat string
  | CStart int string string string
  | CProgress string int
  | CArtifact int string string string "string option" "int option"
  | CSucceed int string string
  | CFail int string "string option" "string option" string "int option"

fun apply_call :: "repo_call \<Rightarrow> database \<Rightarrow> database" where
  "apply_call (CFetch sid wk) db = snd (fetch_next_queued_job sid wk db)"
| "apply_call (CStart now new_id jid wid) db = snd (start_job_attempt now new_id jid wid db)"
| "apply_call (CProgress jid p) db = update_progress jid p db"
| "apply_call (CArtifact now jid ty key ct sz) db = add_artifact now jid ty key ct sz db"
| "apply_call (CSucceed now jid aid) db = mark_job_succeeded now jid aid db"
| "apply_call (CFail now jid aid code m ec) db = mark_job_failed now jid aid code m ec db"

definition run_calls :: "repo_call list \<Rightarrow> database \<Rightarrow> database" where
  "run_calls cs db = fold apply_call cs db"

subsection \<open>Predicates used to state the properties of the store\<close>

text \<open>A row the leasing read of session \<open>sid\<close> may take.\<close>

definition eligible :: "nat \<Rightarrow> database \<Rightarrow> job_row \<Rightarrow> bool" where
  "eligible sid db j = (status j = ''queued'' \<and> \<not> locked_by_other sid db (j_id j))"

text \<open>Strictly earlier in the order "priority descending, then creation time ascending".\<close>

definition precedes :: "job_row \<Rightarrow> job_row \<Rightarrow> bool" where
  "precedes a b =
     (priority b < priority a \<or> (priority a = priority b \<and> created_at a < created_at b))"

text \<open>
  A started job and its attempt rows agree: a queued job has no attempt row, a running
  job has one.
\<close>

definition coherent :: "database \<Rightarrow> bool" where
  "coherent db =
     (\<forall>j \<in> set (jobs db).
        (status j = ''queued'' \<longrightarrow> attempt_nos db (j_id j) = []) \<and>
        (status j = ''running'' \<longrightarrow> attempt_nos db (j_id j) \<noteq> []))"

text \<open>The attempt numbers of every job, in insertion order, are 1, 2, 3, ...\<close>

definition numbered :: "database \<Rightarrow> bool" where
  "numbered db = (\<forall>jid. attempt_nos db jid = [1 .. int (length (attempt_nos db jid))])"

subsection \<open>Example data\<close>

definition job_hi :: job_row where
  "job_hi = \<lparr> j_id = ''j5'', input_object_key = ''in/a.mp4'', output_prefix = ''out/a/'',
              params_fps = None, params_modelId = None, status = ''queued'', priority = 5,
              created_at = 20, progress_percent = 0, error_code = None, error_message = None,
              started_at = None, finished_at = None \<rparr>"

definition job_lo :: job_row where
  "job_lo = \<lparr> j_id = ''j1'', input_object_key = ''in/b.mp4'', output_prefix = ''out/b'',
              params_fps = Some (Finite 0), params_modelId = Some ''m'', status = ''queued'',
              priority = 1, created_at = 10, progress_percent = 0, error_code = None,
              error_message = None, started_at = None, finished_at = None \<rparr>"

definition db0 :: database where
  "db0 = \<lparr> jobs = [job_lo, job_hi], job_attempts = [], artifacts = [], row_locks = [] \<rparr>"

definition cycles3 :: "repo_call list" where
  "cycles3 =
     [CStart 7 ''a1'' ''j1'' ''w1'',
      CFail 8 ''j1'' (Some ''a1'') (Some ''worker_runtime_error'') ''boom'' (Some 1),
      CStart 9 ''a2'' ''j1'' ''w1'',
      CFail 10 ''j1'' (Some ''a2'') (Some ''worker_runtime_error'') ''boom'' (Some 1),
      CStart 11 ''a3'' ''j1'' ''w2'',
      CFail 12 ''j1'' (Some ''a3'') (Some ''worker_runtime_error'') ''boom'' (Some 1)]"


section \<open>Double-precision arithmetic\<close>

text \<open>
  The float operations the progress sink uses, as CPython performs them on IEEE-754
  doubles: the exact result is rounded to the nearest double, ties to the even mantissa.
  A double is an integer multiple of \<open>2 powi (e - 52)\<close>, where \<open>e\<close> is the binary
  exponent of the value and at least -1022; a result of magnitude \<open>2 powi 1024\<close> or more
  is an infinity.
\<close>

text \<open>The integer \<open>e\<close> with \<open>2 powi e \<le> x < 2 powi (e + 1)\<close>, for positive \<open>x\<close>.\<close>

definition ilog2 :: "real \<Rightarrow> int" where
  "ilog2 x = (if 1 \<le> x then bitlen \<lfloor>x\<rfloor> - 1 else - bitlen (\<lceil>1 / x\<rceil> - 1))"

definition round_half_even :: "real \<Rightarrow> int" where
  "round_half_even y =
     (let f = \<lfloor>y\<rfloor>; d = y - of_int f
      in if d < 1 / 2 then f else if 1 / 2 < d then f + 1 else if even f then f else f + 1)"

text \<open>
  The spacing of the doubles around a positive \<open>a\<close>, and \<open>a\<close> rounded to a
  multiple of it.
\<close>

definition ulp_of :: "real \<Rightarrow> real" where
  "ulp_of a = 2 powi (max (ilog2 a) (- 1022) - 52)"

definition round_magnitude :: "real \<Rightarrow> real" where
  "round_magnitude a = of_int (round_half_even (a / ulp_of a)) * ulp_of a"

definition round_double :: "real \<Rightarrow> pyfloat" where
  "round_double x =
     (if x = 0 then Finite 0
      else let r = round_magnitude \<bar>x\<bar>
           in if 2 powi 1024 \<le> r then (if 0 < x then PosInf else NegInf)
              else Finite (if 0 < x then r else - r))"

text \<open>\<open>float(i)\<close> of an \<open>int\<close>.\<close>

definition float_of_int :: "int \<Rightarrow> exc + real" where
  "float_of_int i =
     (case round_double (of_int i) of
        Finite r \<Rightarrow> Inr r
      | _ \<Rightarrow> Inl (Exc OverflowError ''int too large to convert to float''))"

text \<open>\<open>a / b\<close>, \<open>a - b\<close> of finite floats, \<open>a * b\<close> with a finite right operand.\<close>

definition float_div :: "real \<Rightarrow> real \<Rightarrow> exc + pyfloat" where
  "float_div a b =
     (if b = 0 then Inl (Exc ZeroDivisionError ''float division by zero'')
      else Inr (round_double (a / b)))"

definition float_sub :: "real \<Rightarrow> real \<Rightarrow> pyfloat" where
  "float_sub a b = round_double (a - b)"

fun float_mul :: "pyfloat \<Rightarrow> real \<Rightarrow> pyfloat" where
  "float_mul (Finite a) b = round_double (a * b)"
| "float_mul PosInf b = (if 0 < b then PosInf else if b < 0 then NegInf else NaN)"
| "float_mul NegInf b = (if 0 < b then NegInf else if b < 0 then PosInf else NaN)"
| "float_mul NaN b = NaN"

text \<open>\<open>int(x)\<close> of a float: truncation towards zero.\<close>

fun int_of_float :: "pyfloat \<Rightarrow> exc + int" where
  "int_of_float (Finite a) = Inr (if 0 \<le> a then \<lfloor>a\<rfloor> else \<lceil>a\<rceil>)"
| "int_of_float NaN = Inl (Exc ValueError ''cannot convert float NaN to integer'')"
| "int_of_float x = Inl (Exc OverflowError ''cannot convert float infinity to integer'')"


fun float_le :: "pyfloat \<Rightarrow> pyfloat \<Rightarrow> bool" where
  "float_le NaN y = False"
| "float_le x NaN = False"
| "float_le (Finite a) (Finite b) = (a \<le> b)"
| "float_le x PosInf = True"
| "float_le NegInf y = True"
| "float_le x y = False"

section \<open>The persisted-progress sink (db\_progress\_reporter.py)\<close>

text \<open>
  \<open>int((float(current) / float(safe_total)) * 100.0)\<close>, evaluated left to right; each
  step can raise.
\<close>

definition percent_of :: "int \<Rightarrow> int \<Rightarrow> exc + int" where
  "percent_of current safe_total =
     (case float_of_int current of
        Inl e \<Rightarrow> Inl e
      | Inr c \<Rightarrow>
          (case float_of_int safe_total of
             Inl e \<Rightarrow> Inl e
           | Inr t \<Rightarrow>
               (case float_div c t of
                  Inl e \<Rightarrow> Inl e
                | Inr q \<Rightarrow> int_of_float (float_mul q 100))))"











section \<open>The composite reporter (composite\_progress\_reporter.py)\<close>

text \<open>
  A sink is an object with the two methods of \<open>ProgressReporterPort\<close>; each acts on
  the outside world \<open>'w\<close> and either returns or raises.
\<close>

record 'w reporter_port =
  rp_report_phase :: "string \<Rightarrow> string \<Rightarrow> 'w \<Rightarrow> (exc + unit) \<times> 'w"
  rp_report_progress :: "int \<Rightarrow> int \<Rightarrow> string \<Rightarrow> 'w \<Rightarrow> (exc + unit) \<times> 'w"

text \<open>
  \<open>for reporter in self._reporters: reporter.m(...)\<close>: the calls in list order; an
  exception leaves the loop and the method.
\<close>

fun for_each :: "('w \<Rightarrow> (exc + unit) \<times> 'w) list \<Rightarrow> 'w \<Rightarrow> (exc + unit) \<times> 'w" where
  "for_each [] w = (Inr (), w)"
| "for_each (f # fs) w =
     (case f w of (Inl e, w') \<Rightarrow> (Inl e, w') | (Inr u, w') \<Rightarrow> for_each fs w')"

definition composite_report_phase ::
  "'w reporter_port list \<Rightarrow> string \<Rightarrow> string \<Rightarrow> 'w \<Rightarrow> (exc + unit) \<times> 'w" where
  "composite_report_phase reporters phase message =
     for_each (map (\<lambda>reporter. rp_report_phase reporter phase message) reporters)"

definition composite_report_progress ::
  "'w reporter_port list \<Rightarrow> int \<Rightarrow> int \<Rightarrow> string \<Rightarrow> 'w \<Rightarrow> (exc + unit) \<times> 'w" where
  "composite_report_progress reporters current total' message =
     for_each (map (\<lambda>reporter. rp_report_progress reporter current total' message) reporters)"

text \<open>
  Two sinks over a world that is the list of lines written so far: one writes a line,
  one raises.
\<close>

definition writing_sink :: "string list reporter_port" where
  "writing_sink =
     \<lparr> rp_report_phase = (\<lambda>phase message w. (Inr (), w @ [phase])),
       rp_report_progress = (\<lambda>current total' message w. (Inr (), w @ [message])) \<rparr>"

definition raising_sink :: "string list reporter_port" where
  "raising_sink =
     \<lparr> rp_report_phase = (\<lambda>phase message w. (Inl (Exc RuntimeError ''sink failed''), w)),
       rp_report_progress =
         (\<lambda>current total' message w. (Inl (Exc RuntimeError ''sink failed''), w)) \<rparr>"

section \<open>The use cases (use\_cases.py, job\_runner\_use\_cases.py)\<close>

subsection \<open>Domain objects and ports\<close>

text \<open>
  Paths are strings, \<open>a / b\<close> of \<open>pathlib\<close> joins with a slash (the right operands that
  occur are relative).
\<close>

type_synonym path = string

definition path_join :: "path \<Rightarrow> string \<Rightarrow> path" where
  "path_join a b = a @ ''/'' @ b"

text \<open>\<open>s.rstrip("/")\<close>.\<close>

definition rstrip_slash :: "string \<Rightarrow> string" where
  "rstrip_slash s = rev (dropWhile (\<lambda>c. c = CHR ''/'') (rev s))"

text \<open>\<open>str(n)\<close> of a natural number: its decimal digits, most significant first.\<close>

fun decimal_digits :: "nat \<Rightarrow> nat list" where
  "decimal_digits n = (if n < 10 then [n] else decimal_digits (n div 10) @ [n mod 10])"

definition str_of_nat :: "nat \<Rightarrow> string" where
  "str_of_nat n = map (\<lambda>d. char_of (d + 48)) (decimal_digits n)"

record worker_info =
  worker_id_of :: string
  worker_key_of :: string
  display_name_of :: string

record video_to_glb_request =
  input_video_path :: path
  output_dir :: path
  r_fps :: pyfloat
  keep_frames :: bool
  r_model_id :: string

record frame_extraction_result =
  frames_dir :: path
  frame_count :: int

record glb_export_result =
  g_output_dir :: path
  glb_path :: "path option"
  g_frame_count :: int

text \<open>
  The ports of the two use cases, as the worker wires them (one file gateway and one
  progress reporter serve both use cases). A port acts on the outside world \<open>'w\<close> and
  returns or raises; \<open>Path.exists\<close> and \<open>Path.stat\<close> read the world. The progress
  reporter handed to extraction and inference is part of what those ports do to the world.
\<close>

record 'w ports =
  p_ensure_dir :: "path \<Rightarrow> 'w \<Rightarrow> (exc + unit) \<times> 'w"
  p_list_frame_images :: "path \<Rightarrow> 'w \<Rightarrow> (exc + path list) \<times> 'w"
  p_remove_dir :: "path \<Rightarrow> 'w \<Rightarrow> (exc + unit) \<times> 'w"
  p_path_exists :: "path \<Rightarrow> 'w \<Rightarrow> bool"
  p_stat_size :: "path \<Rightarrow> 'w \<Rightarrow> exc + int"
  p_report_phase :: "string \<Rightarrow> string \<Rightarrow> 'w \<Rightarrow> (exc + unit) \<times> 'w"
  p_extract_frames :: "path \<Rightarrow> path \<Rightarrow> pyfloat \<Rightarrow> 'w \<Rightarrow> (exc + frame_extraction_result) \<times> 'w"
  p_export_glb_from_images ::
    "path list \<Rightarrow> path \<Rightarrow> string \<Rightarrow> 'w \<Rightarrow> (exc + glb_export_result) \<times> 'w"
  p_download_file :: "string \<Rightarrow> string \<Rightarrow> path \<Rightarrow> 'w \<Rightarrow> (exc + unit) \<times> 'w"
  p_upload_file :: "path \<Rightarrow> string \<Rightarrow> string \<Rightarrow> string option \<Rightarrow> 'w \<Rightarrow> (exc + unit) \<times> 'w"
  p_start_job_attempt :: "string \<Rightarrow> string \<Rightarrow> 'w \<Rightarrow> (exc + job_attempt_info) \<times> 'w"
  p_add_artifact ::
    "string \<Rightarrow> string \<Rightarrow> string \<Rightarrow> string option \<Rightarrow> int option \<Rightarrow> 'w \<Rightarrow> (exc + unit) \<times> 'w"
  p_mark_job_succeeded :: "string \<Rightarrow> string \<Rightarrow> 'w \<Rightarrow> (exc + unit) \<times> 'w"
  p_mark_job_failed ::
    "string \<Rightarrow> string option \<Rightarrow> string option \<Rightarrow> string \<Rightarrow> int option \<Rightarrow> 'w \<Rightarrow>
     (exc + unit) \<times> 'w"

text \<open>The port calls a use case makes, in order, are recorded next to the world.\<close>

datatype call =
    EnsureDir path
  | ListFrameImages path
  | RemoveDir path
  | ReportPhase string string
  | ExtractFrames path path pyfloat
  | ExportGlb "path list" path string
  | DownloadFile string string path
  | UploadFile path string string "string option"
  | StartJobAttempt string string
  | AddArtifact string string string "string option" "int option"
  | MarkJobSucceeded string string
  | MarkJobFailed string "string option" "string option" string "int option"

type_synonym ('a, 'w) prog = "'w \<times> call list \<Rightarrow> (exc + 'a) \<times> 'w \<times> call list"

definition invoke :: "call \<Rightarrow> ('w \<Rightarrow> (exc + 'a) \<times> 'w) \<Rightarrow> ('a, 'w) prog" where
  "invoke c f s = (case s of (w, tr) \<Rightarrow> (case f w of (r, w') \<Rightarrow> (r, w', tr @ [c])))"

definition preturn :: "'a \<Rightarrow> ('a, 'w) prog" where
  "preturn v s = (Inr v, s)"

definition praise :: "exc \<Rightarrow> ('a, 'w) prog" where
  "praise e s = (Inl e, s)"

text \<open>Sequencing: an exception skips the rest.\<close>

definition pbind :: "('a, 'w) prog \<Rightarrow> ('a \<Rightarrow> ('b, 'w) prog) \<Rightarrow> ('b, 'w) prog" where
  "pbind m k s = (case m s of (Inl e, s') \<Rightarrow> (Inl e, s') | (Inr v, s') \<Rightarrow> k v s')"

text \<open>\<open>try: m  except Exception as ex: h(ex)\<close>.\<close>

definition try_except_Exception ::
  "('a, 'w) prog \<Rightarrow> (exc \<Rightarrow> ('a, 'w) prog) \<Rightarrow> ('a, 'w) prog" where
  "try_except_Exception m h s =
     (case m s of
        (Inl e, s') \<Rightarrow> if is_Exception e then h e s' else (Inl e, s')
      | (Inr v, s') \<Rightarrow> (Inr v, s'))"

subsection \<open>ConvertVideoToGlbUseCase\<close>

text \<open>
  The message literals of the source are Japanese text; the model carries an English
  rendering of each.
\<close>

definition report_phase :: "'w ports \<Rightarrow> string \<Rightarrow> string \<Rightarrow> (unit, 'w) prog" where
  "report_phase P phase message = invoke (ReportPhase phase message) (p_report_phase P phase message)"

definition ensure_dir :: "'w ports \<Rightarrow> path \<Rightarrow> (unit, 'w) prog" where
  "ensure_dir P d = invoke (EnsureDir d) (p_ensure_dir P d)"

definition validate_request :: "'w ports \<Rightarrow> video_to_glb_request \<Rightarrow> (unit, 'w) prog" where
  "validate_request P request s =
     (if p_path_exists P (input_video_path request) (fst s) = False
      then praise (Exc FileNotFoundError
                     (''input video not found: '' @ input_video_path request)) s
      else if float_le (r_fps request) (Finite 0)
      then praise (Exc ValueError ''fps must be greater than 0'') s
      else preturn () s)"

definition cleanup_frames ::
  "'w ports \<Rightarrow> video_to_glb_request \<Rightarrow> frame_extraction_result \<Rightarrow> (unit, 'w) prog" where
  "cleanup_frames P request extraction =
     (if keep_frames request = False
      then try_except_Exception
             (pbind (report_phase P ''cleanup'' ''removing intermediate frames'')
                (\<lambda>u. invoke (RemoveDir (frames_dir extraction))
                        (p_remove_dir P (frames_dir extraction))))
             (\<lambda>ex. report_phase P ''cleanup_warn''
                     (''skipping removal of intermediate frames: '' @ str_of_exc ex))
      else preturn ())"

definition convert_execute ::
  "'w ports \<Rightarrow> video_to_glb_request \<Rightarrow> (glb_export_result, 'w) prog" where
  "convert_execute P request =
     pbind (validate_request P request) (\<lambda>u.
     pbind (report_phase P ''prepare'' ''preparing the output directory'') (\<lambda>u.
     pbind (ensure_dir P (output_dir request)) (\<lambda>u.
     pbind (ensure_dir P (path_join (output_dir request) ''frames'')) (\<lambda>u.
     pbind (invoke (ExtractFrames (input_video_path request)
                      (path_join (output_dir request) ''frames'') (r_fps request))
              (p_extract_frames P (input_video_path request)
                 (path_join (output_dir request) ''frames'') (r_fps request))) (\<lambda>extraction.
     pbind (invoke (ListFrameImages (frames_dir extraction))
              (p_list_frame_images P (frames_dir extraction))) (\<lambda>image_paths.
     if length image_paths = 0
     then praise (Exc RuntimeError ''frame extraction produced 0 frames'')
     else
     pbind (report_phase P ''infer''
              (''starting DA3 inference. frames='' @ str_of_nat (length image_paths) @
               '' model='' @ r_model_id request)) (\<lambda>u.
     pbind (invoke (ExportGlb image_paths (output_dir request) (r_model_id request))
              (p_export_glb_from_images P image_paths (output_dir request)
                 (r_model_id request))) (\<lambda>result.
     pbind (cleanup_frames P request extraction) (\<lambda>u.
     pbind (report_phase P ''done'' ''GLB conversion finished'') (\<lambda>u.
     preturn result))))))))))"

subsection \<open>RunSingleJobUseCase\<close>

record run_config =
  input_bucket :: string
  output_bucket :: string
  keep_frames_for_debug :: bool

definition work_input_dir :: "video_job \<Rightarrow> path" where
  "work_input_dir job = path_join (path_join ''work'' (job_id job)) ''input''"

definition work_output_dir :: "video_job \<Rightarrow> path" where
  "work_output_dir job = path_join (path_join ''work'' (job_id job)) ''output''"

definition local_video_path :: "video_job \<Rightarrow> path" where
  "local_video_path job = path_join (work_input_dir job) ''source.mp4''"

definition glb_object_key :: "video_job \<Rightarrow> string" where
  "glb_object_key job = rstrip_slash (v_output_prefix job) @ ''/result.glb''"

text \<open>
  \<open>glb_path.stat().st_size if glb_path.exists() else None\<close>; a failing \<open>stat\<close> raises.
\<close>

definition glb_size_of :: "'w ports \<Rightarrow> path \<Rightarrow> (int option, 'w) prog" where
  "glb_size_of P g s =
     (if p_path_exists P g (fst s)
      then (case p_stat_size P g (fst s) of Inl e \<Rightarrow> (Inl e, s) | Inr n \<Rightarrow> (Inr (Some n), s))
      else (Inr None, s))"

text \<open>The statements of the \<open>try\<close> block after \<open>attempt_info\<close> has been assigned.\<close>

definition after_start ::
  "'w ports \<Rightarrow> run_config \<Rightarrow> video_job \<Rightarrow> job_attempt_info \<Rightarrow> (unit, 'w) prog" where
  "after_start P cfg job attempt_info =
     pbind (report_phase P ''download'' ''fetching the input video from storage'') (\<lambda>u.
     pbind (invoke (DownloadFile (input_bucket cfg) (v_input_object_key job) (local_video_path job))
              (p_download_file P (input_bucket cfg) (v_input_object_key job)
                 (local_video_path job))) (\<lambda>u.
     pbind (convert_execute P
              \<lparr> input_video_path = local_video_path job, output_dir = work_output_dir job,
                r_fps = fps job, keep_frames = keep_frames_for_debug cfg,
                r_model_id = model_id job \<rparr>) (\<lambda>convert_result.
     (case glb_path convert_result of
        None \<Rightarrow> praise (Exc RuntimeError ''GLB output failed: no output file found'')
      | Some g \<Rightarrow>
          pbind (report_phase P ''upload'' ''uploading the GLB to storage'') (\<lambda>u.
          pbind (invoke (UploadFile g (output_bucket cfg) (glb_object_key job)
                           (Some ''model/gltf-binary''))
                   (p_upload_file P g (output_bucket cfg) (glb_object_key job)
                      (Some ''model/gltf-binary''))) (\<lambda>u.
          pbind (glb_size_of P g) (\<lambda>glb_size.
          pbind (invoke (AddArtifact (job_id job) ''glb'' (glb_object_key job)
                           (Some ''model/gltf-binary'') glb_size)
                   (p_add_artifact P (job_id job) ''glb'' (glb_object_key job)
                      (Some ''model/gltf-binary'') glb_size)) (\<lambda>u.
          invoke (MarkJobSucceeded (job_id job) (attempt_id attempt_info))
            (p_mark_job_succeeded P (job_id job) (attempt_id attempt_info))))))))))"

text \<open>
  The \<open>try\<close> block: it ends with the value the variable \<open>attempt_info\<close> has at that
  point (\<open>None\<close> until \<open>start_job_attempt\<close> has returned) and with its outcome.
\<close>

definition try_block ::
  "'w ports \<Rightarrow> run_config \<Rightarrow> video_job \<Rightarrow> worker_info \<Rightarrow> 'w \<times> call list \<Rightarrow>
   (job_attempt_info option \<times> (exc + unit)) \<times> 'w \<times> call list" where
  "try_block P cfg job worker s =
     (case invoke (StartJobAttempt (job_id job) (worker_id_of worker))
             (p_start_job_attempt P (job_id job) (worker_id_of worker)) s of
        (Inl e, s') \<Rightarrow> ((None, Inl e), s')
      | (Inr attempt_info, s') \<Rightarrow>
          (case after_start P cfg job attempt_info s' of
             (r, s'') \<Rightarrow> ((Some attempt_info, r), s'')))"

text \<open>The \<open>except Exception as ex\<close> clause: record the failure, then \<open>raise\<close>.\<close>

definition except_clause ::
  "'w ports \<Rightarrow> video_job \<Rightarrow> job_attempt_info option \<Rightarrow> exc \<Rightarrow> (unit, 'w) prog" where
  "except_clause P job attempt_info ex =
     pbind (invoke (MarkJobFailed (job_id job) (map_option attempt_id attempt_info)
                      (Some ''worker_runtime_error'') (str_of_exc ex) (Some 1))
              (p_mark_job_failed P (job_id job) (map_option attempt_id attempt_info)
                 (Some ''worker_runtime_error'') (str_of_exc ex) (Some 1)))
       (\<lambda>u. praise ex)"

definition guarded :: "'w ports \<Rightarrow> run_config \<Rightarrow> video_job \<Rightarrow> worker_info \<Rightarrow> (unit, 'w) prog" where
  "guarded P cfg job worker s =
     (case try_block P cfg job worker s of
        ((attempt_info, Inr u), s') \<Rightarrow> (Inr (), s')
      | ((attempt_info, Inl ex), s') \<Rightarrow>
          if is_Exception ex then except_clause P job attempt_info ex s' else (Inl ex, s'))"

definition execute :: "'w ports \<Rightarrow> run_config \<Rightarrow> video_job \<Rightarrow> worker_info \<Rightarrow> (unit, 'w) prog" where
  "execute P cfg job worker =
     pbind (ensure_dir P (work_input_dir job)) (\<lambda>u.
     pbind (ensure_dir P (work_output_dir job)) (\<lambda>u.
     guarded P cfg job worker))"

subsection \<open>Observations on the recorded calls\<close>

fun is_mark_job_failed :: "call \<Rightarrow> bool" where
  "is_mark_job_failed (MarkJobFailed jid aid code m ec) = True"
| "is_mark_job_failed c = False"

definition mark_job_failed_calls :: "call list \<Rightarrow> call list" where
  "mark_job_failed_calls tr = filter is_mark_job_failed tr"

text \<open>A program that only appends calls other than \<open>mark_job_failed\<close> to the record.\<close>

definition quiet :: "('a, 'w) prog \<Rightarrow> bool" where
  "quiet m = (\<forall>s. \<exists>cs. snd (snd (m s)) = snd s @ cs \<and> (\<forall>c \<in> set cs. \<not> is_mark_job_failed c))"

subsection \<open>A worker wired to the PostgreSQL repository\<close>

text \<open>
  A concrete outside world: the database, the local files, the lines on the console, the
  server clock and the next attempt id the server will generate. The repository ports are
  the adapter of the first section; storage, extraction and inference are simple
  stand-ins.
\<close>

record world =
  w_db :: database
  w_files :: "path list"
  w_console :: "string list"
  w_clock :: int
  w_next_id :: nat

definition pg_ports :: "world ports" where
  "pg_ports =
     \<lparr> p_ensure_dir = (\<lambda>d w. (Inr (), w\<lparr>w_files := d # w_files w\<rparr>)),
       p_list_frame_images =
         (\<lambda>d w. (Inr (filter (\<lambda>f. take (length d + 1) f = d @ ''/'') (w_files w)), w)),
       p_remove_dir = (\<lambda>d w. (Inr (), w\<lparr>w_files := filter (\<lambda>f. f \<noteq> d) (w_files w)\<rparr>)),
       p_path_exists = (\<lambda>f w. f \<in> set (w_files w)),
       p_stat_size = (\<lambda>f w. Inr 1024),
       p_report_phase = (\<lambda>phase message w. (Inr (), w\<lparr>w_console := w_console w @ [phase]\<rparr>)),
       p_extract_frames =
         (\<lambda>v d f w. (Inr \<lparr> frames_dir = d, frame_count = 1 \<rparr>,
                     w\<lparr>w_files := (d @ ''/frame_000001.png'') # w_files w\<rparr>)),
       p_export_glb_from_images =
         (\<lambda>imgs d m w. (Inr \<lparr> g_output_dir = d, glb_path = Some (d @ ''/scene.glb''),
                             g_frame_count = int (length imgs) \<rparr>,
                        w\<lparr>w_files := (d @ ''/scene.glb'') # w_files w\<rparr>)),
       p_download_file = (\<lambda>b k f w. (Inr (), w\<lparr>w_files := f # w_files w\<rparr>)),
       p_upload_file = (\<lambda>f b k ct w. (Inr (), w)),
       p_start_job_attempt =
         (\<lambda>jid wid w.
            (case start_job_attempt (w_clock w) (''attempt-'' @ str_of_nat (w_next_id w))
                    jid wid (w_db w) of
               (info, db') \<Rightarrow> (Inr info, w\<lparr>w_db := db', w_next_id := Suc (w_next_id w)\<rparr>))),
       p_add_artifact =
         (\<lambda>jid ty key ct sz w.
            (Inr (), w\<lparr>w_db := add_artifact (w_clock w) jid ty key ct sz (w_db w)\<rparr>)),
       p_mark_job_succeeded =
         (\<lambda>jid aid w. (Inr (), w\<lparr>w_db := mark_job_succeeded (w_clock w) jid aid (w_db w)\<rparr>)),
       p_mark_job_failed =
         (\<lambda>jid aid code m ec w.
            (Inr (), w\<lparr>w_db := mark_job_failed (w_clock w) jid aid code m ec (w_db w)\<rparr>)) \<rparr>"

text \<open>The same worker, interrupted from the keyboard during the download.\<close>

definition interrupted_ports :: "world ports" where
  "interrupted_ports =
     pg_ports\<lparr> p_download_file := (\<lambda>b k f w. (Inl (Exc KeyboardInterrupt ''''), w)) \<rparr>"

definition world0 :: world where
  "world0 = \<lparr> w_db = db0, w_files = [], w_console = [], w_clock = 50, w_next_id = 1 \<rparr>"

definition cfg0 :: run_config where
  "cfg0 = \<lparr> input_bucket = ''in'', output_bucket = ''out'', keep_frames_for_debug = False \<rparr>"

definition worker0 :: worker_info where
  "worker0 = \<lparr> worker_id_of = ''w1'', worker_key_of = ''host'', display_name_of = ''host'' \<rparr>"

text \<open>The example world once the two working directories of a job have been made.\<close>

definition dirs_made :: "video_job \<Rightarrow> world \<times> call list" where
  "dirs_made job =
     (world0\<lparr>w_files := [work_output_dir job, work_input_dir job]\<rparr>,
      [EnsureDir (work_input_dir job), EnsureDir (work_output_dir job)])"

text \<open>Two invalid requests, and the attempt the example worker starts first.\<close>

definition request_missing :: video_to_glb_request where
  "request_missing =
     \<lparr> input_video_path = ''nowhere.mp4'', output_dir = ''out'', r_fps = Finite 2,
       keep_frames = True, r_model_id = ''m'' \<rparr>"

definition request_bad_fps :: video_to_glb_request where
  "request_bad_fps =
     \<lparr> input_video_path = ''work/j1/input'', output_dir = ''out'', r_fps = Finite (- 1),
       keep_frames = True, r_model_id = ''m'' \<rparr>"

definition attempt1 :: job_attempt_info where
  "attempt1 = \<lparr> attempt_id = ''attempt-'' @ str_of_nat 1, i_attempt_no = 1 \<rparr>"

text \<open>
  The states the example worker passes through on job j1: after the attempt is started,
  after the download phase is reported, after the video is downloaded.
\<close>

definition started_lo :: "world \<times> call list" where
  "started_lo =
     snd (invoke (StartJobAttempt (job_id (video_job_of job_lo)) (worker_id_of worker0))
            (p_start_job_attempt pg_ports (job_id (video_job_of job_lo)) (worker_id_of worker0))
            (dirs_made (video_job_of job_lo)))"

definition reported_lo :: "world \<times> call list" where
  "reported_lo =
     snd (report_phase pg_ports ''download'' ''fetching the input video from storage'' started_lo)"

definition downloaded_lo :: "world \<times> call list" where
  "downloaded_lo =
     snd (invoke (DownloadFile (input_bucket cfg0) (v_input_object_key (video_job_of job_lo))
                    (local_video_path (video_job_of job_lo)))
            (p_download_file pg_ports (input_bucket cfg0) (v_input_object_key (video_job_of job_lo))
               (local_video_path (video_job_of job_lo)))
            reported_lo)"

section \<open>Properties of the job store\<close>

lemma sort_key_head:
  "sort_key f xs = y # ys \<Longrightarrow> y \<in> set xs \<and> (\<forall>x \<in> set xs. f y \<le> f x)"
proof -
  assume h: "sort_key f xs = y # ys"
  have s: "sorted (map f (sort_key f xs))" by (rule sorted_sort_key)
  have e: "set (sort_key f xs) = set xs" by simp
  from h e have "y \<in> set xs" by (metis list.set_intros(1))
  moreover from s h have "\<forall>x \<in> set (y # ys). f y \<le> f x" by auto
  ultimately show ?thesis using h e by metis
qed


lemma key_le_not_precedes:
  "(- priority h, created_at h) \<le> (- priority k, created_at k) \<Longrightarrow> \<not> precedes k h"
  by (auto simp: precedes_def less_eq_prod_def)


lemma select_Some:
  assumes "fst (select_for_update_skip_locked sid db) = Some j"
  shows "j \<in> set (jobs db) \<and> eligible sid db j \<and> (\<forall>k \<in> set (jobs db). eligible sid db k \<longrightarrow> \<not> precedes k j)"
proof -
  let ?c = "filter (\<lambda>j. status j = ''queued'' \<and> \<not> locked_by_other sid db (j_id j)) (jobs db)"
  let ?f = "\<lambda>j. (- priority j, created_at j)"
  from assms obtain rest where s: "sort_key ?f ?c = j # rest"
    by (auto simp: select_for_update_skip_locked_def split: list.splits)
  from sort_key_head[OF s] have a: "j \<in> set ?c" and b: "\<forall>x \<in> set ?c. ?f j \<le> ?f x" by auto
  from a have "j \<in> set (jobs db) \<and> eligible sid db j" by (simp add: eligible_def)
  moreover have "\<forall>k \<in> set (jobs db). eligible sid db k \<longrightarrow> \<not> precedes k j"
  proof (intro ballI impI)
    fix k assume "k \<in> set (jobs db)" "eligible sid db k"
    then have "k \<in> set ?c" by (simp add: eligible_def)
    with b have "?f j \<le> ?f k" by blast
    then show "\<not> precedes k j" by (rule key_le_not_precedes)
  qed
  ultimately show ?thesis by blast
qed

lemma fst_fetch:
  "fst (fetch_next_queued_job sid wk db) = map_option video_job_of (fst (select_for_update_skip_locked sid db))"
  by (simp add: fetch_next_queued_job_def Let_def split: prod.splits option.splits)





lemma sql_max_eq: "sql_max ns = (if ns = [] then None else Some (Max (set ns)))"
proof (cases ns)
  case Nil
  then show ?thesis by simp
next
  case (Cons a as)
  have "fold max as a = Max (set (a # as))" by (simp only: Max.set_eq_fold)
  with Cons show ?thesis by simp
qed

lemma Max_upto: "1 \<le> n \<Longrightarrow> Max (set [1..n]) = (n::int)"
proof -
  assume "1 \<le> n"
  then have "Max {1..n} = n" by (intro Max_eqI) auto
  then show ?thesis by simp
qed

lemma next_attempt_no_eq:
  "next_attempt_no db jid = (if attempt_nos db jid = [] then 0 else Max (set (attempt_nos db jid))) + 1"
  by (simp add: next_attempt_no_def sql_max_eq)

lemma nos_map_cong:
  assumes "\<And>a. a_job_id (g a) = a_job_id a" "\<And>a. attempt_no (g a) = attempt_no a"
  shows "map attempt_no (filter (\<lambda>a. a_job_id a = jid) (map g xs)) =
         map attempt_no (filter (\<lambda>a. a_job_id a = jid) xs)"
  using assms by (induction xs) auto

lemma attempt_nos_start:
  "attempt_nos (snd (start_job_attempt now new_id jid wid db)) k =
     attempt_nos db k @ (if k = jid then [next_attempt_no db jid] else [])"
  by (simp add: start_job_attempt_def attempt_nos_def Let_def)

lemma attempt_nos_fetch [simp]: "attempt_nos (snd (fetch_next_queued_job sid wk db)) k = attempt_nos db k"
  by (simp add: fetch_next_queued_job_def select_for_update_skip_locked_def commit_def attempt_nos_def Let_def
      split: list.splits prod.splits option.splits)

lemma attempt_nos_progress [simp]: "attempt_nos (update_progress jid p db) k = attempt_nos db k"
  by (simp add: update_progress_def attempt_nos_def)

lemma attempt_nos_artifact [simp]: "attempt_nos (add_artifact now jid ty key ct sz db) k = attempt_nos db k"
  by (simp add: add_artifact_def attempt_nos_def)

lemma attempt_nos_succeeded [simp]: "attempt_nos (mark_job_succeeded now jid aid db) k = attempt_nos db k"
  unfolding mark_job_succeeded_def attempt_nos_def
  by (simp add: nos_map_cong)

lemma attempt_nos_failed [simp]: "attempt_nos (mark_job_failed now jid aid code m ec db) k = attempt_nos db k"
  unfolding mark_job_failed_def attempt_nos_def Let_def
  by (cases aid) (simp_all add: nos_map_cong fail_attempt_row_def)

lemma numbered_start: 
  assumes "numbered db"
  shows "numbered (snd (start_job_attempt now new_id jid wid db))"
  unfolding numbered_def
proof
  fix k
  let ?db' = "snd (start_job_attempt now new_id jid wid db)"
  let ?n = "int (length (attempt_nos db jid))"
  from assms have n: "attempt_nos db jid = [1..?n]" by (simp add: numbered_def)
  show "attempt_nos ?db' k = [1..int (length (attempt_nos ?db' k))]"
  proof (cases "k = jid")
    case False
    with assms show ?thesis by (simp add: attempt_nos_start numbered_def)
  next
    case True
    have nx: "next_attempt_no db jid = ?n + 1"
    proof (cases "attempt_nos db jid = []")
      case True then show ?thesis by (simp add: next_attempt_no_eq)
    next
      case False
      then have "1 \<le> ?n" by (cases "attempt_nos db jid") auto
      then have "Max (set [1..?n]) = ?n" by (rule Max_upto)
      with n False show ?thesis by (simp add: next_attempt_no_eq)
    qed
    have u: "[1..?n + 1] = [1..?n] @ [?n + 1]" by (simp add: upto_rec2)
    have "attempt_nos ?db' jid = attempt_nos db jid @ [?n + 1]"
      using nx by (simp add: attempt_nos_start)
    also have "\<dots> = [1..?n + 1]" using n u by simp
    finally have a: "attempt_nos ?db' jid = [1..?n + 1]" .
    have "int (length (attempt_nos ?db' jid)) = ?n + 1" by (simp add: attempt_nos_start)
    with a True show ?thesis by simp
  qed
qed

lemma numbered_apply: "numbered db \<Longrightarrow> numbered (apply_call c db)"
  by (cases c) (simp_all add: numbered_start, simp_all add: numbered_def)

lemma numbered_run: "numbered db \<Longrightarrow> numbered (run_calls cs db)"
  unfolding run_calls_def by (induction cs arbitrary: db) (simp_all add: numbered_apply)

lemma start_upto:
  assumes "0 \<le> n" "attempt_nos db jid = [1..n]"
  shows "next_attempt_no db jid = n + 1"
proof (cases "n = 0")
  case True with assms show ?thesis by (simp add: next_attempt_no_eq)
next
  case False
  with assms have "1 \<le> n" by simp
  then have "Max (set [1..n]) = n" by (rule Max_upto)
  moreover from \<open>1 \<le> n\<close> have "[1..n] \<noteq> []" by simp
  ultimately show ?thesis using assms by (simp add: next_attempt_no_eq)
qed

lemma jobs_fetch [simp]: "jobs (snd (fetch_next_queued_job sid wk db)) = jobs db"
  by (simp add: fetch_next_queued_job_def select_for_update_skip_locked_def commit_def Let_def
      split: list.splits prod.splits option.splits)

lemma coherent_start: 
  assumes "coherent db" shows "coherent (snd (start_job_attempt now new_id jid wid db))"
  unfolding coherent_def
proof
  fix j' let ?db' = "snd (start_job_attempt now new_id jid wid db)"
  assume "j' \<in> set (jobs ?db')"
  then obtain j where j: "j \<in> set (jobs db)" and j': "j' = (if j_id j = jid then start_job_row now j else j)"
    by (auto simp: start_job_attempt_def Let_def)
  show "(status j' = ''queued'' \<longrightarrow> attempt_nos ?db' (j_id j') = []) \<and>
        (status j' = ''running'' \<longrightarrow> attempt_nos ?db' (j_id j') \<noteq> [])"
  proof (cases "j_id j = jid")
    case True
    with j' show ?thesis by (simp add: start_job_row_def attempt_nos_start)
  next
    case False
    with j j' assms show ?thesis by (auto simp: coherent_def attempt_nos_start)
  qed
qed

lemma coherent_map:
  assumes "coherent db" 
    and "\<And>k. attempt_nos db' k = attempt_nos db k"
    and "jobs db' = map g (jobs db)"
    and "\<And>j. j_id (g j) = j_id j"
    and "\<And>j. status (g j) = status j \<or> (status (g j) \<noteq> ''queued'' \<and> status (g j) \<noteq> ''running'')"
  shows "coherent db'"
  unfolding coherent_def
proof
  fix j' assume "j' \<in> set (jobs db')"
  with assms(3) obtain j where j: "j \<in> set (jobs db)" and j': "j' = g j" by auto
  from assms(1) j have c: "(status j = ''queued'' \<longrightarrow> attempt_nos db (j_id j) = []) \<and>
        (status j = ''running'' \<longrightarrow> attempt_nos db (j_id j) \<noteq> [])" by (simp add: coherent_def)
  from assms(5)[of j] c j' assms(2) assms(4)
  show "(status j' = ''queued'' \<longrightarrow> attempt_nos db' (j_id j') = []) \<and>
        (status j' = ''running'' \<longrightarrow> attempt_nos db' (j_id j') \<noteq> [])" by auto
qed

lemma jobs_failed: "jobs (mark_job_failed now jid aid code m ec db) =
   map (\<lambda>j. if j_id j = jid then fail_job_row now code m j else j) (jobs db)"
  by (cases aid) (simp_all add: mark_job_failed_def Let_def)

lemma jobs_progress: "jobs (update_progress jid p db) =
   map (\<lambda>j. if j_id j = jid then j\<lparr>progress_percent := safe_percent p\<rparr> else j) (jobs db)"
  by (simp add: update_progress_def)

lemma jobs_succeeded: "jobs (mark_job_succeeded now jid aid db) =
   map (\<lambda>j. if j_id j = jid
                then j\<lparr> status := ''succeeded'', progress_percent := 100, error_code := None,
                        error_message := None, finished_at := Some now \<rparr>
                else j) (jobs db)"
  by (simp add: mark_job_succeeded_def)

lemma coherent_progress: "coherent db \<Longrightarrow> coherent (update_progress jid p db)"
  by (rule coherent_map[where db=db and
        g="\<lambda>j. if j_id j = jid then j\<lparr>progress_percent := safe_percent p\<rparr> else j"])
     (simp_all add: jobs_progress)

lemma coherent_succeeded: "coherent db \<Longrightarrow> coherent (mark_job_succeeded now jid aid db)"
  by (rule coherent_map[where db=db and
        g="\<lambda>j. if j_id j = jid
                then j\<lparr> status := ''succeeded'', progress_percent := 100, error_code := None,
                        error_message := None, finished_at := Some now \<rparr>
                else j"])
     (simp_all add: jobs_succeeded)

lemma coherent_failed: "coherent db \<Longrightarrow> coherent (mark_job_failed now jid aid code m ec db)"
  by (rule coherent_map[where db=db and
        g="\<lambda>j. if j_id j = jid then fail_job_row now code m j else j"])
     (simp_all add: jobs_failed fail_job_row_def)

lemma coherent_same_jobs:
  "coherent db \<Longrightarrow> jobs db' = jobs db \<Longrightarrow> (\<And>k. attempt_nos db' k = attempt_nos db k) \<Longrightarrow> coherent db'"
  by (simp add: coherent_def)

lemma coherent_apply: "coherent db \<Longrightarrow> coherent (apply_call c db)"
proof (cases c)
  case (CFetch sid wk)
  assume "coherent db" then show ?thesis using CFetch
    by (simp add: coherent_same_jobs[where db=db])
next
  case (CStart now new_id jid wid)
  assume "coherent db" then show ?thesis using CStart by (simp add: coherent_start)
next
  case (CProgress jid p)
  assume "coherent db" then show ?thesis using CProgress by (simp add: coherent_progress)
next
  case (CArtifact now jid ty key ct sz)
  assume "coherent db" then show ?thesis using CArtifact
    by (simp add: coherent_same_jobs[where db=db] add_artifact_def attempt_nos_def)
next
  case (CSucceed now jid aid)
  assume "coherent db" then show ?thesis using CSucceed by (simp add: coherent_succeeded)
next
  case (CFail now jid aid code m ec)
  assume "coherent db" then show ?thesis using CFail by (simp add: coherent_failed)
qed

lemma coherent_run: "coherent db \<Longrightarrow> coherent (run_calls cs db)"
  unfolding run_calls_def by (induction cs arbitrary: db) (simp_all add: coherent_apply)

text \<open>
  Claim C3. \<open>start_job_attempt\<close> returns and inserts the attempt number
  (largest attempt number of the job, or 0) + 1, appends one attempt row with status
  running, and in the same transition sets every row of the job to running with progress 0
  and no error code or message, leaving the other rows as they were. When the job's
  numbers so far are 1..n the new one is n + 1; the numbering 1, 2, 3, ... and the
  agreement between a job's status and its attempt rows (a queued job has no attempt row,
  a running job has one) survive every sequence of repository calls.
\<close>

theorem start_job_attempt_effect:
  "i_attempt_no (fst (start_job_attempt now new_id jid wid db)) =
       (if attempt_nos db jid = [] then 0 else Max (set (attempt_nos db jid))) + 1
   \<and> attempt_id (fst (start_job_attempt now new_id jid wid db)) = new_id
   \<and> job_attempts (snd (start_job_attempt now new_id jid wid db)) =
       job_attempts db @
       [\<lparr> a_id = new_id, a_job_id = jid,
          attempt_no = (if attempt_nos db jid = [] then 0 else Max (set (attempt_nos db jid))) + 1,
          worker_id = wid, a_status = ''running'', a_started_at = Some now,
          a_finished_at = None, exit_code = None, a_error_message = None \<rparr>]
   \<and> length (jobs (snd (start_job_attempt now new_id jid wid db))) = length (jobs db)
   \<and> (\<forall>i < length (jobs db).
        (j_id (jobs db ! i) = jid \<longrightarrow>
           jobs (snd (start_job_attempt now new_id jid wid db)) ! i =
             (jobs db ! i)\<lparr> status := ''running'', progress_percent := 0, error_code := None,
                            error_message := None,
                            started_at := (case started_at (jobs db ! i) of
                                             None \<Rightarrow> Some now | Some t \<Rightarrow> Some t),
                            finished_at := None \<rparr>) \<and>
        (j_id (jobs db ! i) \<noteq> jid \<longrightarrow>
           jobs (snd (start_job_attempt now new_id jid wid db)) ! i = jobs db ! i))
   \<and> (\<forall>n. 0 \<le> n \<and> attempt_nos db jid = [1..n] \<longrightarrow>
        i_attempt_no (fst (start_job_attempt now new_id jid wid db)) = n + 1 \<and>
        attempt_nos (snd (start_job_attempt now new_id jid wid db)) jid = [1..n + 1])
   \<and> (coherent db \<longrightarrow> coherent (snd (start_job_attempt now new_id jid wid db)))
   \<and> (\<forall>cs. numbered db \<longrightarrow> numbered (run_calls cs db))
   \<and> (\<forall>cs. coherent db \<longrightarrow> coherent (run_calls cs db))"
proof -
  let ?R = "start_job_attempt now new_id jid wid db"
  have c1: "i_attempt_no (fst ?R) =
       (if attempt_nos db jid = [] then 0 else Max (set (attempt_nos db jid))) + 1"
    by (simp add: start_job_attempt_def Let_def next_attempt_no_eq)
  have c2: "attempt_id (fst ?R) = new_id"
    by (simp add: start_job_attempt_def Let_def)
  have c3: "job_attempts (snd ?R) =
       job_attempts db @
       [\<lparr> a_id = new_id, a_job_id = jid,
          attempt_no = (if attempt_nos db jid = [] then 0 else Max (set (attempt_nos db jid))) + 1,
          worker_id = wid, a_status = ''running'', a_started_at = Some now,
          a_finished_at = None, exit_code = None, a_error_message = None \<rparr>]"
    by (simp add: start_job_attempt_def Let_def next_attempt_no_eq)
  have c4: "length (jobs (snd ?R)) = length (jobs db)"
    by (simp add: start_job_attempt_def Let_def)
  have c5: "\<forall>i < length (jobs db).
        (j_id (jobs db ! i) = jid \<longrightarrow>
           jobs (snd ?R) ! i =
             (jobs db ! i)\<lparr> status := ''running'', progress_percent := 0, error_code := None,
                            error_message := None,
                            started_at := (case started_at (jobs db ! i) of
                                             None \<Rightarrow> Some now | Some t \<Rightarrow> Some t),
                            finished_at := None \<rparr>) \<and>
        (j_id (jobs db ! i) \<noteq> jid \<longrightarrow> jobs (snd ?R) ! i = jobs db ! i)"
    by (simp add: start_job_attempt_def Let_def start_job_row_def)
  have c6: "\<forall>n. 0 \<le> n \<and> attempt_nos db jid = [1..n] \<longrightarrow>
        i_attempt_no (fst ?R) = n + 1 \<and> attempt_nos (snd ?R) jid = [1..n + 1]"
  proof (intro allI impI)
    fix n assume h: "0 \<le> n \<and> attempt_nos db jid = [1..n]"
    then have nx: "next_attempt_no db jid = n + 1" by (simp add: start_upto)
    then have a: "i_attempt_no (fst ?R) = n + 1"
      by (simp add: start_job_attempt_def Let_def)
    from h have "[1..n + 1] = [1..n] @ [n + 1]" by (simp add: upto_rec2)
    with h nx have "attempt_nos (snd ?R) jid = [1..n + 1]"
      by (simp add: attempt_nos_start)
    with a show "i_attempt_no (fst ?R) = n + 1 \<and> attempt_nos (snd ?R) jid = [1..n + 1]" by simp
  qed
  have c7: "coherent db \<longrightarrow> coherent (snd ?R)" by (simp add: coherent_start)
  have c8: "\<forall>cs. numbered db \<longrightarrow> numbered (run_calls cs db)" by (simp add: numbered_run)
  have c9: "\<forall>cs. coherent db \<longrightarrow> coherent (run_calls cs db)" by (simp add: coherent_run)
  show ?thesis by (intro conjI c1 c2 c3 c4 c5 c6 c7 c8 c9)
qed

theorem start_job_attempt_effect_witness:
  "(0::int) \<le> 0 \<and> attempt_nos db0 ''j1'' = [1..0] \<and> coherent db0 \<and> numbered db0 \<and>
   (0::nat) < length (jobs db0) \<and> j_id (jobs db0 ! 0) = ''j1'' \<and>
   (1::nat) < length (jobs db0) \<and> j_id (jobs db0 ! 1) \<noteq> ''j1'' \<and>
   i_attempt_no (fst (start_job_attempt 7 ''a1'' ''j1'' ''w1'' db0)) = 1 \<and>
   attempt_nos (snd (start_job_attempt 7 ''a1'' ''j1'' ''w1'' db0)) ''j1'' = [1..1] \<and>
   status (jobs (snd (start_job_attempt 7 ''a1'' ''j1'' ''w1'' db0)) ! 0) = ''running'' \<and>
   jobs (snd (start_job_attempt 7 ''a1'' ''j1'' ''w1'' db0)) ! 1 = jobs db0 ! 1 \<and>
   coherent (snd (start_job_attempt 7 ''a1'' ''j1'' ''w1'' db0)) \<and>
   numbered (run_calls cycles3 db0) \<and> coherent (run_calls cycles3 db0)"
proof -
  let ?R = "start_job_attempt 7 ''a1'' ''j1'' ''w1'' db0"
  note T = start_job_attempt_effect [of 7 "''a1''" "''j1''" "''w1''" db0]
  have h1: "(0::int) \<le> 0 \<and> attempt_nos db0 ''j1'' = [1..0]"
    by (simp add: db0_def attempt_nos_def)
  have h2: "coherent db0" by (simp add: db0_def coherent_def attempt_nos_def job_lo_def job_hi_def)
  have h3: "numbered db0" by (simp add: db0_def numbered_def attempt_nos_def)
  have h4: "(0::nat) < length (jobs db0) \<and> j_id (jobs db0 ! 0) = ''j1''"
    by (simp add: db0_def job_lo_def)
  have h5: "(1::nat) < length (jobs db0) \<and> j_id (jobs db0 ! 1) \<noteq> ''j1''"
    by (simp add: db0_def job_hi_def)
  from T have "\<forall>n. 0 \<le> n \<and> attempt_nos db0 ''j1'' = [1..n] \<longrightarrow>
      i_attempt_no (fst ?R) = n + 1 \<and> attempt_nos (snd ?R) ''j1'' = [1..n + 1]" by blast
  with h1 have r1: "i_attempt_no (fst ?R) = 0 + 1 \<and> attempt_nos (snd ?R) ''j1'' = [1..0 + 1]"
    by blast
  from T have rows: "\<forall>i < length (jobs db0).
        (j_id (jobs db0 ! i) = ''j1'' \<longrightarrow>
           jobs (snd ?R) ! i =
             (jobs db0 ! i)\<lparr> status := ''running'', progress_percent := 0, error_code := None,
                            error_message := None,
                            started_at := (case started_at (jobs db0 ! i) of
                                             None \<Rightarrow> Some 7 | Some t \<Rightarrow> Some t),
                            finished_at := None \<rparr>) \<and>
        (j_id (jobs db0 ! i) \<noteq> ''j1'' \<longrightarrow> jobs (snd ?R) ! i = jobs db0 ! i)" by blast
  from rows h4 have r2: "status (jobs (snd ?R) ! 0) = ''running''" by simp
  from rows h5 have r3: "jobs (snd ?R) ! 1 = jobs db0 ! 1" by blast
  from T h2 have r4: "coherent (snd ?R)" by blast
  from T h3 have r5: "numbered (run_calls cycles3 db0)" by blast
  from T h2 have r6: "coherent (run_calls cycles3 db0)" by blast
  from r1 have r1': "i_attempt_no (fst ?R) = 1 \<and> attempt_nos (snd ?R) ''j1'' = [1..1]" by simp
  from h1 h2 h3 h4 h5 r1' r2 r3 r4 r5 r6 show ?thesis by blast
qed



lemma row_locks_fetch:
  "row_locks (snd (fetch_next_queued_job sid wk db)) = filter (\<lambda>l. snd l \<noteq> sid) (row_locks db)"
  by (simp add: fetch_next_queued_job_def select_for_update_skip_locked_def commit_def Let_def
      split: list.splits prod.splits option.splits)

lemma fetch_frame:
  "snd (fetch_next_queued_job sid wk db) = db\<lparr>row_locks := filter (\<lambda>l. snd l \<noteq> sid) (row_locks db)\<rparr>"
  by (simp add: fetch_next_queued_job_def select_for_update_skip_locked_def commit_def Let_def
      split: list.splits prod.splits option.splits)

lemma select_no_locks:
  "row_locks db = [] \<Longrightarrow>
   fst (select_for_update_skip_locked sid2 db) = fst (select_for_update_skip_locked sid db)"
  by (simp add: select_for_update_skip_locked_def locked_by_other_def split: list.splits)

lemma select_lock:
  "select_for_update_skip_locked sid db = (Some j, db1) \<Longrightarrow> (j_id j, sid) \<in> set (row_locks db1)"
  by (auto simp: select_for_update_skip_locked_def split: list.splits)

text \<open>
  Claim C10. \<open>fetch_next_queued_job\<close> changes no table: the job rows, attempts and
  artifacts after the call are those before it, so the returned job is still queued. The
  lock the read took is gone when the call returns (the session owns no lock, the locks of
  other sessions are as before). Hence a second leasing call made after the first has
  returned gets the same job, whereas a locking read made while the first session still
  holds its lock gets a different row.
\<close>

theorem fetch_next_queued_job_frame:
  "jobs (snd (fetch_next_queued_job sid wk db)) = jobs db
   \<and> job_attempts (snd (fetch_next_queued_job sid wk db)) = job_attempts db
   \<and> artifacts (snd (fetch_next_queued_job sid wk db)) = artifacts db
   \<and> row_locks (snd (fetch_next_queued_job sid wk db)) = filter (\<lambda>l. snd l \<noteq> sid) (row_locks db)
   \<and> (\<forall>v. fst (fetch_next_queued_job sid wk db) = Some v \<longrightarrow>
        (\<exists>j \<in> set (jobs (snd (fetch_next_queued_job sid wk db))).
           v = video_job_of j \<and> j_id j = job_id v \<and> status j = ''queued''))
   \<and> (row_locks db = [] \<longrightarrow>
        snd (fetch_next_queued_job sid wk db) = db \<and>
        fetch_next_queued_job sid2 wk2 (snd (fetch_next_queued_job sid wk db)) =
          fetch_next_queued_job sid wk db)
   \<and> (\<forall>j k db1 db2. sid \<noteq> sid2 \<and> select_for_update_skip_locked sid db = (Some j, db1) \<and>
        select_for_update_skip_locked sid2 db1 = (Some k, db2) \<longrightarrow> j_id k \<noteq> j_id j)"
proof -
  let ?F = "fetch_next_queued_job sid wk db"
  have c1: "jobs (snd ?F) = jobs db" by (simp add: fetch_frame)
  have c2: "job_attempts (snd ?F) = job_attempts db" by (simp add: fetch_frame)
  have c3: "artifacts (snd ?F) = artifacts db" by (simp add: fetch_frame)
  have c4: "row_locks (snd ?F) = filter (\<lambda>l. snd l \<noteq> sid) (row_locks db)" by (simp add: fetch_frame)
  have c5: "\<forall>v. fst ?F = Some v \<longrightarrow>
        (\<exists>j \<in> set (jobs (snd ?F)). v = video_job_of j \<and> j_id j = job_id v \<and> status j = ''queued'')"
  proof (intro allI impI)
    fix v assume "fst ?F = Some v"
    then obtain j where j: "fst (select_for_update_skip_locked sid db) = Some j" and v: "v = video_job_of j"
      by (auto simp: fst_fetch)
    from select_Some[OF j] have "j \<in> set (jobs db) \<and> status j = ''queued''"
      by (simp add: eligible_def)
    with v c1 show "\<exists>j \<in> set (jobs (snd ?F)). v = video_job_of j \<and> j_id j = job_id v \<and> status j = ''queued''"
      by (auto simp: video_job_of_def)
  qed
  have c6: "row_locks db = [] \<longrightarrow>
        snd ?F = db \<and> fetch_next_queued_job sid2 wk2 (snd ?F) = ?F"
  proof
    assume e: "row_locks db = []"
    then have s: "snd ?F = db" by (simp add: fetch_frame)
    have "fst (fetch_next_queued_job sid2 wk2 db) = fst ?F"
      using e by (simp add: fst_fetch select_no_locks[of db sid2 sid])
    moreover have "snd (fetch_next_queued_job sid2 wk2 db) = snd ?F"
      using e by (simp add: fetch_frame)
    ultimately have "fetch_next_queued_job sid2 wk2 db = ?F" by (simp add: prod_eq_iff)
    with s show "snd ?F = db \<and> fetch_next_queued_job sid2 wk2 (snd ?F) = ?F" by simp
  qed
  have c7: "\<forall>j k db1 db2. sid \<noteq> sid2 \<and> select_for_update_skip_locked sid db = (Some j, db1) \<and>
        select_for_update_skip_locked sid2 db1 = (Some k, db2) \<longrightarrow> j_id k \<noteq> j_id j"
  proof (intro allI impI)
    fix j k db1 db2
    assume h: "sid \<noteq> sid2 \<and> select_for_update_skip_locked sid db = (Some j, db1) \<and>
        select_for_update_skip_locked sid2 db1 = (Some k, db2)"
    then have "select_for_update_skip_locked sid db = (Some j, db1)" by simp
    then have l: "(j_id j, sid) \<in> set (row_locks db1)" by (rule select_lock)
    from h have "fst (select_for_update_skip_locked sid2 db1) = Some k" by simp
    from select_Some[OF this] have "\<not> locked_by_other sid2 db1 (j_id k)" by (simp add: eligible_def)
    with l h show "j_id k \<noteq> j_id j" by (auto simp: locked_by_other_def)
  qed
  show ?thesis by (intro conjI c1 c2 c3 c4 c5 c6 c7)
qed

theorem fetch_next_queued_job_frame_witness:
  "row_locks db0 = [] \<and> (1::nat) \<noteq> 2 \<and>
   fst (fetch_next_queued_job 1 ''w'' db0) = Some (video_job_of job_hi) \<and>
   fetch_next_queued_job 2 ''v'' (snd (fetch_next_queued_job 1 ''w'' db0)) =
     fetch_next_queued_job 1 ''w'' db0 \<and>
   select_for_update_skip_locked 1 db0 = (Some job_hi, db0\<lparr>row_locks := [(''j5'', 1)]\<rparr>) \<and>
   select_for_update_skip_locked 2 (db0\<lparr>row_locks := [(''j5'', 1)]\<rparr>) =
     (Some job_lo, db0\<lparr>row_locks := [(''j1'', 2), (''j5'', 1)]\<rparr>) \<and>
   j_id job_lo \<noteq> j_id job_hi \<and>
   (\<exists>j \<in> set (jobs (snd (fetch_next_queued_job 1 ''w'' db0))).
      video_job_of job_hi = video_job_of j \<and> status j = ''queued'')"
proof -
  note T = fetch_next_queued_job_frame [of 1 "''w''" db0 2 "''v''"]
  have h1: "row_locks db0 = []" by (simp add: db0_def)
  have h2: "fst (fetch_next_queued_job 1 ''w'' db0) = Some (video_job_of job_hi)"
    by (simp add: fetch_next_queued_job_def select_for_update_skip_locked_def db0_def job_hi_def
        job_lo_def locked_by_other_def commit_def less_eq_prod_def)
  have h3: "select_for_update_skip_locked 1 db0 = (Some job_hi, db0\<lparr>row_locks := [(''j5'', 1)]\<rparr>)"
    by (simp add: select_for_update_skip_locked_def db0_def job_hi_def
        job_lo_def locked_by_other_def less_eq_prod_def)
  have h4: "select_for_update_skip_locked 2 (db0\<lparr>row_locks := [(''j5'', 1)]\<rparr>) =
     (Some job_lo, db0\<lparr>row_locks := [(''j1'', 2), (''j5'', 1)]\<rparr>)"
    by (simp add: select_for_update_skip_locked_def db0_def job_hi_def
        job_lo_def locked_by_other_def less_eq_prod_def)
  from T h1 have r1: "fetch_next_queued_job 2 ''v'' (snd (fetch_next_queued_job 1 ''w'' db0)) =
     fetch_next_queued_job 1 ''w'' db0" by blast
  from T have "\<forall>j k db1 db2. (1::nat) \<noteq> 2 \<and> select_for_update_skip_locked 1 db0 = (Some j, db1) \<and>
        select_for_update_skip_locked 2 db1 = (Some k, db2) \<longrightarrow> j_id k \<noteq> j_id j" by blast
  then have "(1::nat) \<noteq> 2 \<and> select_for_update_skip_locked 1 db0 = (Some job_hi, db0\<lparr>row_locks := [(''j5'', 1)]\<rparr>) \<and>
        select_for_update_skip_locked 2 (db0\<lparr>row_locks := [(''j5'', 1)]\<rparr>) =
          (Some job_lo, db0\<lparr>row_locks := [(''j1'', 2), (''j5'', 1)]\<rparr>) \<longrightarrow> j_id job_lo \<noteq> j_id job_hi"
    by blast
  with h3 h4 have r2: "j_id job_lo \<noteq> j_id job_hi" by simp
  from T h2 have r3: "\<exists>j \<in> set (jobs (snd (fetch_next_queued_job 1 ''w'' db0))).
      video_job_of job_hi = video_job_of j \<and> status j = ''queued''" by blast
  from h1 h2 h3 h4 r1 r2 r3 show ?thesis by simp
qed

section \<open>Properties of the double-precision operations\<close>

text \<open>Evaluation of \<open>bitlen\<close> on numerals.\<close>

lemma bitlen_num [simp]:
  "bitlen 1 = 1"
  "bitlen (numeral (Num.Bit0 n)) = bitlen (numeral n) + 1"
  "bitlen (numeral (Num.Bit1 n)) = bitlen (numeral n) + 1"
  "bitlen (numeral Num.One) = 1"
proof -
  show "bitlen 1 = 1" by (subst compute_bitlen) simp
  then show "bitlen (numeral Num.One) = 1" by simp
  have "(numeral (Num.Bit0 n) :: int) div 2 = numeral n" by simp
  then show "bitlen (numeral (Num.Bit0 n)) = bitlen (numeral n) + 1"
    by (subst compute_bitlen) simp
  have "(numeral (Num.Bit1 n) :: int) div 2 = numeral n" by simp
  then show "bitlen (numeral (Num.Bit1 n)) = bitlen (numeral n) + 1"
    by (subst compute_bitlen) simp
qed

text \<open>The definitions to unfold when a float expression is evaluated on numerals.\<close>

lemmas float_eval = round_double_def round_magnitude_def ulp_of_def ilog2_def round_half_even_def
  float_of_int_def float_div_def float_sub_def percent_of_def Let_def


text \<open>
  The integer part of the double-precision percentage can fall below the floor of the exact
  quotient: 29 of 100 gives 28.
\<close>

lemma percent_of_29_100: "percent_of 29 100 = Inr 28"
  by (simp add: float_eval)


lemma rhe_of_int [simp]: "round_half_even (of_int k) = k"
  by (simp add: round_half_even_def)




lemma ilog2_less:
  assumes "0 < x" shows "x < 2 powi (ilog2 x + 1)"
proof (cases "1 \<le> x")
  case True
  then have n: "0 < \<lfloor>x\<rfloor>" by simp
  from bitlen_bounds[OF n] have "\<lfloor>x\<rfloor> < 2 ^ nat (bitlen \<lfloor>x\<rfloor>)" by simp
  then have "\<lfloor>x\<rfloor> + 1 \<le> 2 ^ nat (bitlen \<lfloor>x\<rfloor>)" by simp
  then have "(of_int (\<lfloor>x\<rfloor> + 1) :: real) \<le> of_int (2 ^ nat (bitlen \<lfloor>x\<rfloor>))"
    by (rule iffD2[OF of_int_le_iff])
  then have "of_int \<lfloor>x\<rfloor> + 1 \<le> (2::real) ^ nat (bitlen \<lfloor>x\<rfloor>)" by simp
  moreover have "x < of_int \<lfloor>x\<rfloor> + 1" by linarith
  ultimately have "x < (2::real) ^ nat (bitlen \<lfloor>x\<rfloor>)" by linarith
  moreover from n have "1 \<le> bitlen \<lfloor>x\<rfloor>" by (simp add: bitlen_alt_def)
  ultimately show ?thesis using True by (simp add: ilog2_def power_int_def)
next
  case False
  with assms have y: "1 < 1 / x" by simp
  let ?n = "\<lceil>1 / x\<rceil> - 1"
  let ?k = "nat (bitlen ?n - 1)"
  from y have n: "0 < ?n" by linarith
  from bitlen_bounds[OF n] have "2 ^ ?k \<le> ?n" by simp
  then have "(of_int (2 ^ ?k) :: real) \<le> of_int ?n" by (rule iffD2[OF of_int_le_iff])
  then have "(2::real) ^ ?k \<le> of_int ?n" by simp
  moreover have "of_int ?n < 1 / x" by linarith
  ultimately have "(2::real) ^ ?k < 1 / x" by linarith
  with assms have "x * 2 ^ ?k < 1" by (simp add: field_simps)
  then have "x < 1 / 2 ^ ?k" by (simp add: field_simps)
  moreover from n have "1 \<le> bitlen ?n" by (simp add: bitlen_alt_def)
  ultimately show ?thesis using False
    by (simp add: ilog2_def power_int_def inverse_eq_divide power_one_over)
qed

lemma ulp_pos [simp]: "0 < ulp_of a"
  by (simp add: ulp_of_def)

lemma ulp_nonneg [simp]: "0 \<le> ulp_of a"
  by (simp add: ulp_of_def)















section \<open>Properties of the persisted-progress sink\<close>










section \<open>Properties of the composite reporter\<close>

lemma for_each_returns:
  "fst (for_each fs w) = Inr () \<Longrightarrow> snd (for_each fs w) = foldl (\<lambda>w f. snd (f w)) w fs"
proof (induction fs arbitrary: w)
  case Nil
  then show ?case by simp
next
  case (Cons f fs)
  obtain r w' where f: "f w = (r, w')" by (cases "f w")
  show ?case
  proof (cases r)
    case (Inl e)
    with f Cons.prems show ?thesis by simp
  next
    case (Inr u)
    with f Cons.prems have "fst (for_each fs w') = Inr ()" by simp
    from Cons.IH[OF this] f Inr show ?thesis by simp
  qed
qed

lemma for_each_append:
  "fst (for_each pre w) = Inr () \<Longrightarrow>
   for_each (pre @ post) w = for_each post (snd (for_each pre w))"
proof (induction pre arbitrary: w)
  case Nil
  then show ?case by simp
next
  case (Cons f fs)
  obtain r w' where f: "f w = (r, w')" by (cases "f w")
  show ?case
  proof (cases r)
    case (Inl e)
    with f Cons.prems show ?thesis by simp
  next
    case (Inr u)
    with f Cons.prems have "fst (for_each fs w') = Inr ()" by simp
    from Cons.IH[OF this] f Inr show ?thesis by simp
  qed
qed

lemma for_each_next:
  assumes "fst (for_each pre w) = Inr ()"
  shows "for_each (pre @ f # post) w =
           (case f (snd (for_each pre w)) of
              (Inl e, w') \<Rightarrow> (Inl e, w')
            | (Inr u, w') \<Rightarrow> for_each post w')"
  using for_each_append[OF assms, of "f # post"] by simp

text \<open>
  Claim C8, as amended. A call on the composite reporter goes to the sinks in list order:
  each sink is invoked on the world the sinks before it have left, provided all of them
  returned. When every sink returns, all have been invoked, in order. An exception raised
  by a sink is not caught: it is the outcome of the composite call, and the sinks after
  that one are not invoked (the outcome does not depend on them).
\<close>

theorem composite_fan_out:
  "(\<forall>pre s post. reporters = pre @ s # post \<and>
        fst (composite_report_phase pre phase message w) = Inr () \<longrightarrow>
        composite_report_phase reporters phase message w =
          (case rp_report_phase s phase message (snd (composite_report_phase pre phase message w)) of
             (Inl e, w') \<Rightarrow> (Inl e, w')
           | (Inr u, w') \<Rightarrow> composite_report_phase post phase message w'))
   \<and> (fst (composite_report_phase reporters phase message w) = Inr () \<longrightarrow>
        snd (composite_report_phase reporters phase message w) =
          foldl (\<lambda>w s. snd (rp_report_phase s phase message w)) w reporters)
   \<and> (\<forall>pre s post. reporters = pre @ s # post \<and>
        fst (composite_report_progress pre current total' message w) = Inr () \<longrightarrow>
        composite_report_progress reporters current total' message w =
          (case rp_report_progress s current total' message
                  (snd (composite_report_progress pre current total' message w)) of
             (Inl e, w') \<Rightarrow> (Inl e, w')
           | (Inr u, w') \<Rightarrow> composite_report_progress post current total' message w'))
   \<and> (fst (composite_report_progress reporters current total' message w) = Inr () \<longrightarrow>
        snd (composite_report_progress reporters current total' message w) =
          foldl (\<lambda>w s. snd (rp_report_progress s current total' message w)) w reporters)"
proof -
  have c1: "\<forall>pre s post. reporters = pre @ s # post \<and>
        fst (composite_report_phase pre phase message w) = Inr () \<longrightarrow>
        composite_report_phase reporters phase message w =
          (case rp_report_phase s phase message (snd (composite_report_phase pre phase message w)) of
             (Inl e, w') \<Rightarrow> (Inl e, w')
           | (Inr u, w') \<Rightarrow> composite_report_phase post phase message w')"
    unfolding composite_report_phase_def by (auto simp: for_each_next)
  have c2: "fst (composite_report_phase reporters phase message w) = Inr () \<longrightarrow>
        snd (composite_report_phase reporters phase message w) =
          foldl (\<lambda>w s. snd (rp_report_phase s phase message w)) w reporters"
    by (simp add: composite_report_phase_def for_each_returns foldl_map)
  have c3: "\<forall>pre s post. reporters = pre @ s # post \<and>
        fst (composite_report_progress pre current total' message w) = Inr () \<longrightarrow>
        composite_report_progress reporters current total' message w =
          (case rp_report_progress s current total' message
                  (snd (composite_report_progress pre current total' message w)) of
             (Inl e, w') \<Rightarrow> (Inl e, w')
           | (Inr u, w') \<Rightarrow> composite_report_progress post current total' message w')"
    unfolding composite_report_progress_def by (auto simp: for_each_next)
  have c4: "fst (composite_report_progress reporters current total' message w) = Inr () \<longrightarrow>
        snd (composite_report_progress reporters current total' message w) =
          foldl (\<lambda>w s. snd (rp_report_progress s current total' message w)) w reporters"
    by (simp add: composite_report_progress_def for_each_returns foldl_map)
  show ?thesis by (intro conjI c1 c2 c3 c4)
qed

theorem composite_fan_out_witness:
  "[writing_sink, raising_sink, writing_sink] = [writing_sink] @ raising_sink # [writing_sink] \<and>
   fst (composite_report_phase [writing_sink] ''download'' ''m'' []) = Inr () \<and>
   composite_report_phase [writing_sink, raising_sink, writing_sink] ''download'' ''m'' [] =
     (Inl (Exc RuntimeError ''sink failed''), [''download'']) \<and>
   fst (composite_report_phase [writing_sink, writing_sink] ''download'' ''m'' []) = Inr () \<and>
   snd (composite_report_phase [writing_sink, writing_sink] ''download'' ''m'' []) =
     [''download'', ''download''] \<and>
   fst (composite_report_progress [writing_sink] 1 2 ''m'' []) = Inr () \<and>
   composite_report_progress [writing_sink, raising_sink, writing_sink] 1 2 ''m'' [] =
     (Inl (Exc RuntimeError ''sink failed''), [''m'']) \<and>
   fst (composite_report_progress [writing_sink, writing_sink] 1 2 ''m'' []) = Inr () \<and>
   snd (composite_report_progress [writing_sink, writing_sink] 1 2 ''m'' []) = [''m'', ''m'']"
proof -
  note A = composite_fan_out [of "[writing_sink, raising_sink, writing_sink]" "''download''" "''m''" "[]"
      1 2]
  note B = composite_fan_out [of "[writing_sink, writing_sink]" "''download''" "''m''" "[]" 1 2]
  have h0: "[writing_sink, raising_sink, writing_sink] = [writing_sink] @ raising_sink # [writing_sink]"
    by simp
  have h1: "fst (composite_report_phase [writing_sink] ''download'' ''m'' []) = Inr ()"
    by (simp add: composite_report_phase_def writing_sink_def)
  have h2: "fst (composite_report_phase [writing_sink, writing_sink] ''download'' ''m'' []) = Inr ()"
    by (simp add: composite_report_phase_def writing_sink_def)
  have h3: "fst (composite_report_progress [writing_sink] 1 2 ''m'' []) = Inr ()"
    by (simp add: composite_report_progress_def writing_sink_def)
  have h4: "fst (composite_report_progress [writing_sink, writing_sink] 1 2 ''m'' []) = Inr ()"
    by (simp add: composite_report_progress_def writing_sink_def)
  from A h0 h1 have "composite_report_phase [writing_sink, raising_sink, writing_sink] ''download'' ''m'' [] =
          (case rp_report_phase raising_sink ''download'' ''m''
                  (snd (composite_report_phase [writing_sink] ''download'' ''m'' [])) of
             (Inl e, w') \<Rightarrow> (Inl e, w')
           | (Inr u, w') \<Rightarrow> composite_report_phase [writing_sink] ''download'' ''m'' w')" by blast
  then have r1: "composite_report_phase [writing_sink, raising_sink, writing_sink] ''download'' ''m'' [] =
     (Inl (Exc RuntimeError ''sink failed''), [''download''])"
    by (simp add: composite_report_phase_def writing_sink_def raising_sink_def)
  from A h0 h3 have "composite_report_progress [writing_sink, raising_sink, writing_sink] 1 2 ''m'' [] =
          (case rp_report_progress raising_sink 1 2 ''m''
                  (snd (composite_report_progress [writing_sink] 1 2 ''m'' [])) of
             (Inl e, w') \<Rightarrow> (Inl e, w')
           | (Inr u, w') \<Rightarrow> composite_report_progress [writing_sink] 1 2 ''m'' w')" by blast
  then have r2: "composite_report_progress [writing_sink, raising_sink, writing_sink] 1 2 ''m'' [] =
     (Inl (Exc RuntimeError ''sink failed''), [''m''])"
    by (simp add: composite_report_progress_def writing_sink_def raising_sink_def)
  from B h2 have "snd (composite_report_phase [writing_sink, writing_sink] ''download'' ''m'' []) =
          foldl (\<lambda>w s. snd (rp_report_phase s ''download'' ''m'' w)) [] [writing_sink, writing_sink]"
    by blast
  then have r3: "snd (composite_report_phase [writing_sink, writing_sink] ''download'' ''m'' []) =
     [''download'', ''download'']" by (simp add: writing_sink_def)
  from B h4 have "snd (composite_report_progress [writing_sink, writing_sink] 1 2 ''m'' []) =
          foldl (\<lambda>w s. snd (rp_report_progress s 1 2 ''m'' w)) [] [writing_sink, writing_sink]"
    by blast
  then have r4: "snd (composite_report_progress [writing_sink, writing_sink] 1 2 ''m'' []) =
     [''m'', ''m'']" by (simp add: writing_sink_def)
  from h0 h1 h2 h3 h4 r1 r2 r3 r4 show ?thesis by blast
qed

text \<open>
  The claim as worded fails: with a raising sink first, the exception is the outcome of
  the composite call and the second sink has written nothing.
\<close>

theorem composite_fan_out_counterexample:
  "fst (composite_report_phase [raising_sink, writing_sink] ''download'' ''m'' []) \<noteq> Inr () \<and>
   snd (composite_report_phase [raising_sink, writing_sink] ''download'' ''m'' []) = [] \<and>
   snd (rp_report_phase writing_sink ''download'' ''m'' []) \<noteq> []"
  by (simp add: composite_report_phase_def writing_sink_def raising_sink_def)

section \<open>Properties of the use cases\<close>

lemma quiet_unchanged: "(\<And>s. snd (m s) = s) \<Longrightarrow> quiet m"
  unfolding quiet_def by (intro allI exI[of _ "[]"]) simp

lemma quiet_preturn: "quiet (preturn v)"
  by (rule quiet_unchanged) (simp add: preturn_def)

lemma quiet_praise: "quiet (praise e)"
  by (rule quiet_unchanged) (simp add: praise_def)

lemma quiet_invoke: "\<not> is_mark_job_failed c \<Longrightarrow> quiet (invoke c f)"
  unfolding quiet_def
proof
  fix s :: "'a \<times> call list"
  assume c: "\<not> is_mark_job_failed c"
  obtain w tr where s: "s = (w, tr)" by (cases s)
  obtain r w' where f: "f w = (r, w')" by (cases "f w")
  from s f have "snd (snd (invoke c f s)) = snd s @ [c]" by (simp add: invoke_def)
  with c show "\<exists>cs. snd (snd (invoke c f s)) = snd s @ cs \<and> (\<forall>c \<in> set cs. \<not> is_mark_job_failed c)"
    by (intro exI[of _ "[c]"]) simp
qed

lemma quiet_pbind:
  assumes "quiet m" "\<And>v. quiet (k v)"
  shows "quiet (pbind m k)"
  unfolding quiet_def
proof
  fix s
  from assms(1) obtain cs1 where 1: "snd (snd (m s)) = snd s @ cs1"
      "\<forall>c \<in> set cs1. \<not> is_mark_job_failed c" unfolding quiet_def by blast
  obtain r s' where ms: "m s = (r, s')" by (cases "m s")
  show "\<exists>cs. snd (snd (pbind m k s)) = snd s @ cs \<and> (\<forall>c \<in> set cs. \<not> is_mark_job_failed c)"
  proof (cases r)
    case (Inl e)
    with ms 1 show ?thesis by (intro exI[of _ cs1]) (simp add: pbind_def)
  next
    case (Inr v)
    from assms(2)[of v] obtain cs2 where 2: "snd (snd (k v s')) = snd s' @ cs2"
      "\<forall>c \<in> set cs2. \<not> is_mark_job_failed c" unfolding quiet_def by blast
    from ms 1 have "snd s' = snd s @ cs1" by simp
    with 2 ms Inr have "snd (snd (pbind m k s)) = snd s @ (cs1 @ cs2)" by (simp add: pbind_def)
    with 1 2 show ?thesis by (intro exI[of _ "cs1 @ cs2"]) auto
  qed
qed

lemma quiet_try:
  assumes "quiet m" "\<And>e. quiet (h e)"
  shows "quiet (try_except_Exception m h)"
  unfolding quiet_def
proof
  fix s
  from assms(1) obtain cs1 where 1: "snd (snd (m s)) = snd s @ cs1"
      "\<forall>c \<in> set cs1. \<not> is_mark_job_failed c" unfolding quiet_def by blast
  obtain r s' where ms: "m s = (r, s')" by (cases "m s")
  show "\<exists>cs. snd (snd (try_except_Exception m h s)) = snd s @ cs \<and>
          (\<forall>c \<in> set cs. \<not> is_mark_job_failed c)"
  proof (cases r)
    case (Inr v)
    with ms 1 show ?thesis by (intro exI[of _ cs1]) (simp add: try_except_Exception_def)
  next
    case (Inl e)
    show ?thesis
    proof (cases "is_Exception e")
      case False
      with Inl ms 1 show ?thesis by (intro exI[of _ cs1]) (simp add: try_except_Exception_def)
    next
      case True
      from assms(2)[of e] obtain cs2 where 2: "snd (snd (h e s')) = snd s' @ cs2"
        "\<forall>c \<in> set cs2. \<not> is_mark_job_failed c" unfolding quiet_def by blast
      from ms 1 have "snd s' = snd s @ cs1" by simp
      with 2 ms Inl True have "snd (snd (try_except_Exception m h s)) = snd s @ (cs1 @ cs2)"
        by (simp add: try_except_Exception_def)
      with 1 2 show ?thesis by (intro exI[of _ "cs1 @ cs2"]) auto
    qed
  qed
qed

lemma quiet_if: "quiet a \<Longrightarrow> quiet b \<Longrightarrow> quiet (if c then a else b)"
  by simp

lemma quiet_report_phase: "quiet (report_phase P phase message)"
  by (simp add: report_phase_def quiet_invoke)

lemma quiet_ensure_dir: "quiet (ensure_dir P d)"
  by (simp add: ensure_dir_def quiet_invoke)

lemma quiet_validate: "quiet (validate_request P request)"
  by (rule quiet_unchanged) (simp add: validate_request_def praise_def preturn_def)

lemma quiet_glb_size: "quiet (glb_size_of P g)"
  by (rule quiet_unchanged) (simp add: glb_size_of_def split: sum.splits)

lemma quiet_cleanup: "quiet (cleanup_frames P request extraction)"
  unfolding cleanup_frames_def
  by (intro quiet_if quiet_try quiet_pbind quiet_report_phase quiet_invoke quiet_preturn) simp

lemma quiet_convert: "quiet (convert_execute P request)"
  unfolding convert_execute_def
  by (intro quiet_pbind quiet_if quiet_validate quiet_report_phase quiet_ensure_dir quiet_invoke
        quiet_praise quiet_preturn quiet_cleanup) simp_all

lemma quiet_after_start: "quiet (after_start P cfg job attempt_info)"
  unfolding after_start_def
proof (intro quiet_pbind quiet_report_phase quiet_invoke quiet_convert)
  show "\<not> is_mark_job_failed (DownloadFile (input_bucket cfg) (v_input_object_key job) (local_video_path job))"
    by simp
next
  fix convert_result
  show "quiet (case glb_path convert_result of
        None \<Rightarrow> praise (Exc RuntimeError ''GLB output failed: no output file found'')
      | Some g \<Rightarrow>
          pbind (report_phase P ''upload'' ''uploading the GLB to storage'') (\<lambda>u.
          pbind (invoke (UploadFile g (output_bucket cfg) (glb_object_key job)
                           (Some ''model/gltf-binary''))
                   (p_upload_file P g (output_bucket cfg) (glb_object_key job)
                      (Some ''model/gltf-binary''))) (\<lambda>u.
          pbind (glb_size_of P g) (\<lambda>glb_size.
          pbind (invoke (AddArtifact (job_id job) ''glb'' (glb_object_key job)
                           (Some ''model/gltf-binary'') glb_size)
                   (p_add_artifact P (job_id job) ''glb'' (glb_object_key job)
                      (Some ''model/gltf-binary'') glb_size)) (\<lambda>u.
          invoke (MarkJobSucceeded (job_id job) (attempt_id attempt_info))
            (p_mark_job_succeeded P (job_id job) (attempt_id attempt_info)))))))"
  proof (cases "glb_path convert_result")
    case None
    then show ?thesis by (simp add: quiet_praise)
  next
    case (Some g)
    then show ?thesis
      by (simp, intro quiet_pbind quiet_report_phase quiet_invoke quiet_glb_size) simp_all
  qed
qed

lemma quiet_calls:
  "quiet m \<Longrightarrow> mark_job_failed_calls (snd (snd (m s))) = mark_job_failed_calls (snd s)"
proof -
  assume "quiet m"
  then obtain cs where "snd (snd (m s)) = snd s @ cs" "\<forall>c \<in> set cs. \<not> is_mark_job_failed c"
    unfolding quiet_def by blast
  then show ?thesis by (simp add: mark_job_failed_calls_def)
qed

lemma try_block_calls:
  assumes "try_block P cfg job worker s2 = ((ai, r), s3)"
  shows "mark_job_failed_calls (snd s3) = mark_job_failed_calls (snd s2) \<and>
         ai = (case fst (p_start_job_attempt P (job_id job) (worker_id_of worker) (fst s2)) of
                 Inl e \<Rightarrow> None | Inr a \<Rightarrow> Some a)"
proof -
  let ?start = "invoke (StartJobAttempt (job_id job) (worker_id_of worker))
             (p_start_job_attempt P (job_id job) (worker_id_of worker))"
  obtain r1 s' where st: "?start s2 = (r1, s')" by (cases "?start s2")
  have q1: "mark_job_failed_calls (snd s') = mark_job_failed_calls (snd s2)"
    using quiet_calls[OF quiet_invoke, of "StartJobAttempt (job_id job) (worker_id_of worker)"
        "p_start_job_attempt P (job_id job) (worker_id_of worker)" s2] st by simp
  have r1: "fst (p_start_job_attempt P (job_id job) (worker_id_of worker) (fst s2)) = r1"
    using st by (cases s2) (auto simp: invoke_def split: prod.splits)
  show ?thesis
  proof (cases r1)
    case (Inl e)
    with st assms have "s3 = s'" "ai = None" by (simp_all add: try_block_def)
    with q1 r1 Inl show ?thesis by simp
  next
    case (Inr a)
    obtain r2 s'' where as: "after_start P cfg job a s' = (r2, s'')"
      by (cases "after_start P cfg job a s'")
    with st Inr assms have e: "s3 = s''" "ai = Some a" by (simp_all add: try_block_def)
    have "mark_job_failed_calls (snd s'') = mark_job_failed_calls (snd s')"
      using quiet_calls[OF quiet_after_start, of P cfg job a s'] as by simp
    with q1 e r1 Inr show ?thesis by simp
  qed
qed

lemma ensure_dir_calls:
  "ensure_dir P d s = (r, s1) \<Longrightarrow> mark_job_failed_calls (snd s1) = mark_job_failed_calls (snd s)"
  using quiet_calls[OF quiet_ensure_dir, of P d s] by simp

lemma guarded_calls_on_return:
  assumes "fst (guarded P cfg job worker s2) = Inr ()"
  shows "mark_job_failed_calls (snd (snd (guarded P cfg job worker s2))) = mark_job_failed_calls (snd s2)"
proof -
  obtain ai r s3 where tb: "try_block P cfg job worker s2 = ((ai, r), s3)"
    by (cases "try_block P cfg job worker s2") auto
  show ?thesis
  proof (cases r)
    case (Inr u)
    with tb have "guarded P cfg job worker s2 = (Inr (), s3)" by (simp add: guarded_def)
    with try_block_calls[OF tb] show ?thesis by simp
  next
    case (Inl ex)
    with tb assms have False
      by (auto simp: guarded_def except_clause_def pbind_def praise_def invoke_def
          split: if_splits prod.splits sum.splits)
    then show ?thesis ..
  qed
qed

text \<open>The definitions to unfold when a use case is run on the example worker.\<close>

lemmas run_eval = execute_def guarded_def try_block_def except_clause_def after_start_def
  convert_execute_def validate_request_def cleanup_frames_def glb_size_of_def pbind_def invoke_def
  praise_def preturn_def try_except_Exception_def report_phase_def ensure_dir_def pg_ports_def
  interrupted_ports_def world0_def cfg0_def worker0_def video_job_of_def job_lo_def job_hi_def
  db0_def work_input_dir_def work_output_dir_def local_video_path_def glb_object_key_def
  path_join_def rstrip_slash_def start_job_attempt_def next_attempt_no_def attempt_nos_def
  mark_job_failed_def mark_job_succeeded_def add_artifact_def fail_job_row_def
  fail_attempt_row_def start_job_row_def truncated_message_def mark_job_failed_calls_def Let_def

lemma guarded_on_exception:
  assumes tb: "try_block P cfg job worker s2 = ((ai, Inl ex), s3)" and ex: "is_Exception ex"
  shows "\<exists>r w4.
           p_mark_job_failed P (job_id job) (map_option attempt_id ai)
             (Some ''worker_runtime_error'') (str_of_exc ex) (Some 1) (fst s3) = (r, w4) \<and>
           guarded P cfg job worker s2 =
             ((case r of Inl e1 \<Rightarrow> Inl e1 | Inr u \<Rightarrow> Inl ex), w4,
              snd s3 @ [MarkJobFailed (job_id job) (map_option attempt_id ai)
                          (Some ''worker_runtime_error'') (str_of_exc ex) (Some 1)]) \<and>
           mark_job_failed_calls (snd (snd (guarded P cfg job worker s2))) =
             mark_job_failed_calls (snd s2) @
             [MarkJobFailed (job_id job) (map_option attempt_id ai)
                (Some ''worker_runtime_error'') (str_of_exc ex) (Some 1)]"
proof -
  let ?c = "MarkJobFailed (job_id job) (map_option attempt_id ai)
                (Some ''worker_runtime_error'') (str_of_exc ex) (Some 1)"
  obtain r w4 where mf: "p_mark_job_failed P (job_id job) (map_option attempt_id ai)
             (Some ''worker_runtime_error'') (str_of_exc ex) (Some 1) (fst s3) = (r, w4)"
    by (cases "p_mark_job_failed P (job_id job) (map_option attempt_id ai)
             (Some ''worker_runtime_error'') (str_of_exc ex) (Some 1) (fst s3)")
  obtain w3 tr3 where s3: "s3 = (w3, tr3)" by (cases s3)
  from tb ex mf s3 have g: "guarded P cfg job worker s2 =
             ((case r of Inl e1 \<Rightarrow> Inl e1 | Inr u \<Rightarrow> Inl ex), w4, snd s3 @ [?c])"
    by (cases r) (simp_all add: guarded_def except_clause_def pbind_def invoke_def praise_def)
  from try_block_calls[OF tb] have "mark_job_failed_calls (snd s3) = mark_job_failed_calls (snd s2)"
    by simp
  with g have "mark_job_failed_calls (snd (snd (guarded P cfg job worker s2))) =
             mark_job_failed_calls (snd s2) @ [?c]"
    by (simp add: mark_job_failed_calls_def)
  with mf g show ?thesis by blast
qed

lemma execute_calls_on_return:
  assumes "fst (execute P cfg job worker s) = Inr ()"
  shows "mark_job_failed_calls (snd (snd (execute P cfg job worker s))) = mark_job_failed_calls (snd s)"
proof -
  obtain r1 s1 where d1: "ensure_dir P (work_input_dir job) s = (r1, s1)"
    by (cases "ensure_dir P (work_input_dir job) s")
  obtain r2 s2 where d2: "ensure_dir P (work_output_dir job) s1 = (r2, s2)"
    by (cases "ensure_dir P (work_output_dir job) s1")
  from assms d1 obtain u1 where r1: "r1 = Inr u1"
    by (cases r1) (simp_all add: execute_def pbind_def)
  from assms d1 d2 r1 obtain u2 where r2: "r2 = Inr u2"
    by (cases r2) (simp_all add: execute_def pbind_def)
  from d1 d2 r1 r2 have e: "execute P cfg job worker s = guarded P cfg job worker s2"
    by (simp add: execute_def pbind_def)
  with assms have "fst (guarded P cfg job worker s2) = Inr ()" by simp
  from guarded_calls_on_return[OF this] e ensure_dir_calls[OF d1] ensure_dir_calls[OF d2]
  show ?thesis by simp
qed

text \<open>
  Claim C5, as amended. Once the two \<open>ensure_dir\<close> calls that precede the \<open>try\<close> block
  have returned, the execution is that of the guarded block. The \<open>try\<close> block makes no
  \<open>mark_job_failed\<close> call, and leaves \<open>attempt_info\<close> set exactly when
  \<open>start_job_attempt\<close> returned. If it ends normally, so does the execution. If it
  ends with an exception that derives from \<open>Exception\<close>, exactly one
  \<open>mark_job_failed\<close> call follows, as the last call, with the job id, the attempt id if
  there is one, the code worker\_runtime\_error, the text of the exception and exit code 1;
  when that call returns, the same exception is raised to the caller, and when it raises,
  its own exception is. If the block ends with any other exception, that exception
  reaches the caller and no \<open>mark_job_failed\<close> call is made. An execution that returns
  normally has made no \<open>mark_job_failed\<close> call.
\<close>

theorem execute_records_failure_once:
  "(\<forall>s1 s2. ensure_dir P (work_input_dir job) s = (Inr (), s1) \<and>
       ensure_dir P (work_output_dir job) s1 = (Inr (), s2) \<longrightarrow>
       execute P cfg job worker s = guarded P cfg job worker s2 \<and>
       mark_job_failed_calls (snd s2) = mark_job_failed_calls (snd s))
   \<and> (\<forall>ai r s3. try_block P cfg job worker s2 = ((ai, r), s3) \<longrightarrow>
        mark_job_failed_calls (snd s3) = mark_job_failed_calls (snd s2) \<and>
        ai = (case fst (p_start_job_attempt P (job_id job) (worker_id_of worker) (fst s2)) of
                Inl e \<Rightarrow> None | Inr a \<Rightarrow> Some a))
   \<and> (\<forall>ai s3. try_block P cfg job worker s2 = ((ai, Inr ()), s3) \<longrightarrow>
        guarded P cfg job worker s2 = (Inr (), s3))
   \<and> (\<forall>ai ex s3. try_block P cfg job worker s2 = ((ai, Inl ex), s3) \<and> is_Exception ex \<longrightarrow>
        (\<exists>r w4.
           p_mark_job_failed P (job_id job) (map_option attempt_id ai)
             (Some ''worker_runtime_error'') (str_of_exc ex) (Some 1) (fst s3) = (r, w4) \<and>
           guarded P cfg job worker s2 =
             ((case r of Inl e1 \<Rightarrow> Inl e1 | Inr u \<Rightarrow> Inl ex), w4,
              snd s3 @ [MarkJobFailed (job_id job) (map_option attempt_id ai)
                          (Some ''worker_runtime_error'') (str_of_exc ex) (Some 1)]) \<and>
           mark_job_failed_calls (snd (snd (guarded P cfg job worker s2))) =
             mark_job_failed_calls (snd s2) @
             [MarkJobFailed (job_id job) (map_option attempt_id ai)
                (Some ''worker_runtime_error'') (str_of_exc ex) (Some 1)]))
   \<and> (\<forall>ai ex s3. try_block P cfg job worker s2 = ((ai, Inl ex), s3) \<and> \<not> is_Exception ex \<longrightarrow>
        guarded P cfg job worker s2 = (Inl ex, s3))
   \<and> (fst (execute P cfg job worker s) = Inr () \<longrightarrow>
        mark_job_failed_calls (snd (snd (execute P cfg job worker s))) =
          mark_job_failed_calls (snd s))"
proof -
  have c1: "\<forall>s1 s2. ensure_dir P (work_input_dir job) s = (Inr (), s1) \<and>
       ensure_dir P (work_output_dir job) s1 = (Inr (), s2) \<longrightarrow>
       execute P cfg job worker s = guarded P cfg job worker s2 \<and>
       mark_job_failed_calls (snd s2) = mark_job_failed_calls (snd s)"
  proof (intro allI impI)
    fix s1 s2
    assume h: "ensure_dir P (work_input_dir job) s = (Inr (), s1) \<and>
       ensure_dir P (work_output_dir job) s1 = (Inr (), s2)"
    then have "execute P cfg job worker s = guarded P cfg job worker s2"
      by (simp add: execute_def pbind_def)
    moreover from h have "mark_job_failed_calls (snd s2) = mark_job_failed_calls (snd s)"
      using ensure_dir_calls[of P "work_input_dir job" s "Inr ()" s1]
        ensure_dir_calls[of P "work_output_dir job" s1 "Inr ()" s2] by simp
    ultimately show "execute P cfg job worker s = guarded P cfg job worker s2 \<and>
       mark_job_failed_calls (snd s2) = mark_job_failed_calls (snd s)" by simp
  qed
  have c2: "\<forall>ai r s3. try_block P cfg job worker s2 = ((ai, r), s3) \<longrightarrow>
        mark_job_failed_calls (snd s3) = mark_job_failed_calls (snd s2) \<and>
        ai = (case fst (p_start_job_attempt P (job_id job) (worker_id_of worker) (fst s2)) of
                Inl e \<Rightarrow> None | Inr a \<Rightarrow> Some a)"
    using try_block_calls by blast
  have c3: "\<forall>ai s3. try_block P cfg job worker s2 = ((ai, Inr ()), s3) \<longrightarrow>
        guarded P cfg job worker s2 = (Inr (), s3)"
    by (simp add: guarded_def)
  have c4: "\<forall>ai ex s3. try_block P cfg job worker s2 = ((ai, Inl ex), s3) \<and> is_Exception ex \<longrightarrow>
        (\<exists>r w4.
           p_mark_job_failed P (job_id job) (map_option attempt_id ai)
             (Some ''worker_runtime_error'') (str_of_exc ex) (Some 1) (fst s3) = (r, w4) \<and>
           guarded P cfg job worker s2 =
             ((case r of Inl e1 \<Rightarrow> Inl e1 | Inr u \<Rightarrow> Inl ex), w4,
              snd s3 @ [MarkJobFailed (job_id job) (map_option attempt_id ai)
                          (Some ''worker_runtime_error'') (str_of_exc ex) (Some 1)]) \<and>
           mark_job_failed_calls (snd (snd (guarded P cfg job worker s2))) =
             mark_job_failed_calls (snd s2) @
             [MarkJobFailed (job_id job) (map_option attempt_id ai)
                (Some ''worker_runtime_error'') (str_of_exc ex) (Some 1)])"
    using guarded_on_exception by blast
  have c5: "\<forall>ai ex s3. try_block P cfg job worker s2 = ((ai, Inl ex), s3) \<and> \<not> is_Exception ex \<longrightarrow>
        guarded P cfg job worker s2 = (Inl ex, s3)"
    by (simp add: guarded_def)
  have c6: "fst (execute P cfg job worker s) = Inr () \<longrightarrow>
        mark_job_failed_calls (snd (snd (execute P cfg job worker s))) =
          mark_job_failed_calls (snd s)"
    using execute_calls_on_return by blast
  show ?thesis by (intro conjI c1 c2 c3 c4 c5 c6)
qed

theorem execute_records_failure_once_witness:
  "ensure_dir pg_ports (work_input_dir (video_job_of job_lo)) (world0, []) =
     (Inr (), world0\<lparr>w_files := [work_input_dir (video_job_of job_lo)]\<rparr>,
      [EnsureDir (work_input_dir (video_job_of job_lo))]) \<and>
   ensure_dir pg_ports (work_output_dir (video_job_of job_lo))
     (world0\<lparr>w_files := [work_input_dir (video_job_of job_lo)]\<rparr>,
      [EnsureDir (work_input_dir (video_job_of job_lo))]) =
     (Inr (), dirs_made (video_job_of job_lo)) \<and>
   snd (fst (try_block pg_ports cfg0 (video_job_of job_lo) worker0 (dirs_made (video_job_of job_lo)))) =
     Inl (Exc ValueError ''fps must be greater than 0'') \<and>
   is_Exception (Exc ValueError ''fps must be greater than 0'') \<and>
   length (mark_job_failed_calls
     (snd (snd (execute pg_ports cfg0 (video_job_of job_lo) worker0 (world0, []))))) = 1 \<and>
   fst (execute pg_ports cfg0 (video_job_of job_lo) worker0 (world0, [])) =
     Inl (Exc ValueError ''fps must be greater than 0'') \<and>
   fst (execute pg_ports cfg0 (video_job_of job_hi) worker0 (world0, [])) = Inr () \<and>
   mark_job_failed_calls
     (snd (snd (execute pg_ports cfg0 (video_job_of job_hi) worker0 (world0, [])))) = [] \<and>
   snd (fst (try_block interrupted_ports cfg0 (video_job_of job_hi) worker0
               (dirs_made (video_job_of job_hi)))) = Inl (Exc KeyboardInterrupt '''') \<and>
   \<not> is_Exception (Exc KeyboardInterrupt '''') \<and>
   fst (guarded interrupted_ports cfg0 (video_job_of job_hi) worker0
          (dirs_made (video_job_of job_hi))) = Inl (Exc KeyboardInterrupt '''')"
proof -
  let ?lo = "video_job_of job_lo"
  let ?hi = "video_job_of job_hi"
  let ?s1 = "(world0\<lparr>w_files := [work_input_dir ?lo]\<rparr>, [EnsureDir (work_input_dir ?lo)])"
  note A = execute_records_failure_once [of pg_ports ?lo "(world0, [])" cfg0 worker0 "dirs_made ?lo"]
  note B = execute_records_failure_once [of pg_ports ?hi "(world0, [])" cfg0 worker0 "dirs_made ?hi"]
  note C = execute_records_failure_once [of interrupted_ports ?hi "(world0, [])" cfg0 worker0
      "dirs_made ?hi"]
  have h1: "ensure_dir pg_ports (work_input_dir ?lo) (world0, []) = (Inr (), ?s1)"
    by (simp add: ensure_dir_def invoke_def pg_ports_def world0_def)
  have h2: "ensure_dir pg_ports (work_output_dir ?lo) ?s1 = (Inr (), dirs_made ?lo)"
    by (simp add: ensure_dir_def invoke_def pg_ports_def world0_def dirs_made_def)
  have h3: "snd (fst (try_block pg_ports cfg0 ?lo worker0 (dirs_made ?lo))) =
     Inl (Exc ValueError ''fps must be greater than 0'')"
    by (simp add: run_eval dirs_made_def)
  have h4: "is_Exception (Exc ValueError ''fps must be greater than 0'')" by simp
  have h5: "fst (execute pg_ports cfg0 ?hi worker0 (world0, [])) = Inr ()"
    by (simp add: run_eval)
  have h6: "snd (fst (try_block interrupted_ports cfg0 ?hi worker0 (dirs_made ?hi))) =
     Inl (Exc KeyboardInterrupt '''')"
    by (simp add: run_eval dirs_made_def)
  have h7: "\<not> is_Exception (Exc KeyboardInterrupt '''')" by simp
  note A1 = A [THEN conjunct1, rule_format, OF conjI [OF h1 h2]]
  from A1 have e: "execute pg_ports cfg0 ?lo worker0 (world0, []) =
      guarded pg_ports cfg0 ?lo worker0 (dirs_made ?lo)"
    and m0: "mark_job_failed_calls (snd (dirs_made ?lo)) = mark_job_failed_calls (snd (world0, []::call list))"
    by simp_all
  obtain ai r s3 where tb: "try_block pg_ports cfg0 ?lo worker0 (dirs_made ?lo) = ((ai, r), s3)"
    by (cases "try_block pg_ports cfg0 ?lo worker0 (dirs_made ?lo)") auto
  with h3 have tb': "try_block pg_ports cfg0 ?lo worker0 (dirs_made ?lo) =
      ((ai, Inl (Exc ValueError ''fps must be greater than 0'')), s3)" by simp
  note A4 = A [THEN conjunct2, THEN conjunct2, THEN conjunct2, THEN conjunct1, rule_format,
      OF conjI [OF tb' h4]]
  from A4 have m: "mark_job_failed_calls (snd (snd (guarded pg_ports cfg0 ?lo worker0 (dirs_made ?lo)))) =
             mark_job_failed_calls (snd (dirs_made ?lo)) @
             [MarkJobFailed (job_id ?lo) (map_option attempt_id ai)
                (Some ''worker_runtime_error'')
                (str_of_exc (Exc ValueError ''fps must be greater than 0'')) (Some 1)]"
    by (elim exE conjE)
  from m m0 e have r1: "length (mark_job_failed_calls
     (snd (snd (execute pg_ports cfg0 ?lo worker0 (world0, []))))) = 1"
    by (simp add: mark_job_failed_calls_def)
  have r1b: "fst (execute pg_ports cfg0 ?lo worker0 (world0, [])) =
     Inl (Exc ValueError ''fps must be greater than 0'')"
    by (simp add: run_eval)
  note B6 = B [THEN conjunct2, THEN conjunct2, THEN conjunct2, THEN conjunct2, THEN conjunct2,
      rule_format, OF h5]
  from B6 have "mark_job_failed_calls (snd (snd (execute pg_ports cfg0 ?hi worker0 (world0, [])))) =
          mark_job_failed_calls (snd (world0, []::call list))" .
  then have r2: "mark_job_failed_calls
     (snd (snd (execute pg_ports cfg0 ?hi worker0 (world0, [])))) = []"
    by (simp add: mark_job_failed_calls_def)
  obtain ai' r' s3' where tc: "try_block interrupted_ports cfg0 ?hi worker0 (dirs_made ?hi) = ((ai', r'), s3')"
    by (cases "try_block interrupted_ports cfg0 ?hi worker0 (dirs_made ?hi)") auto
  with h6 have tc': "try_block interrupted_ports cfg0 ?hi worker0 (dirs_made ?hi) =
      ((ai', Inl (Exc KeyboardInterrupt '''')), s3')" by simp
  note C5 = C [THEN conjunct2, THEN conjunct2, THEN conjunct2, THEN conjunct2, THEN conjunct1,
      rule_format, OF conjI [OF tc' h7]]
  from C5 have "guarded interrupted_ports cfg0 ?hi worker0 (dirs_made ?hi) =
      (Inl (Exc KeyboardInterrupt ''''), s3')" .
  then have r3: "fst (guarded interrupted_ports cfg0 ?hi worker0 (dirs_made ?hi)) =
      Inl (Exc KeyboardInterrupt '''')" by simp
  show ?thesis by (intro conjI h1 h2 h3 h4 h5 h6 h7 r1 r1b r2 r3)
qed

text \<open>
  The claim as worded fails when the exception does not derive from \<open>Exception\<close>: the
  download is interrupted from the keyboard, the interrupt reaches the caller, and no
  \<open>mark_job_failed\<close> call has been made (the job stays running).
\<close>

theorem execute_records_failure_once_counterexample:
  "fst (execute interrupted_ports cfg0 (video_job_of job_hi) worker0 (world0, [])) =
     Inl (Exc KeyboardInterrupt '''') \<and>
   length (mark_job_failed_calls
     (snd (snd (execute interrupted_ports cfg0 (video_job_of job_hi) worker0 (world0, []))))) \<noteq> 1"
  by (simp add: run_eval)

lemma invoke_trace:
  "invoke c f s = (r, s') \<Longrightarrow> snd s' = snd s @ [c]"
  by (cases s) (auto simp: invoke_def split: prod.splits)

lemma convert_rejects_missing_input:
  "\<not> p_path_exists P (input_video_path request) (fst s) \<Longrightarrow>
   convert_execute P request s =
     (Inl (Exc FileNotFoundError (''input video not found: '' @ input_video_path request)), s)"
  by (simp add: convert_execute_def pbind_def validate_request_def praise_def)

lemma convert_rejects_bad_fps:
  "p_path_exists P (input_video_path request) (fst s) \<Longrightarrow> float_le (r_fps request) (Finite 0) \<Longrightarrow>
   convert_execute P request s = (Inl (Exc ValueError ''fps must be greater than 0''), s)"
  by (simp add: convert_execute_def pbind_def validate_request_def praise_def)

lemma pipeline_validation_failure:
  assumes st: "invoke (StartJobAttempt (job_id job) (worker_id_of worker))
                 (p_start_job_attempt P (job_id job) (worker_id_of worker)) s2 = (Inr ai, s3)"
    and rp: "report_phase P ''download'' ''fetching the input video from storage'' s3 = (Inr (), s4)"
    and dl: "invoke (DownloadFile (input_bucket cfg) (v_input_object_key job) (local_video_path job))
               (p_download_file P (input_bucket cfg) (v_input_object_key job)
                  (local_video_path job)) s4 = (Inr (), s5)"
    and bad: "\<not> p_path_exists P (local_video_path job) (fst s5) \<or> float_le (fps job) (Finite 0)"
  shows "\<exists>ex r w6.
          (ex = Exc FileNotFoundError (''input video not found: '' @ local_video_path job) \<or>
           ex = Exc ValueError ''fps must be greater than 0'') \<and>
          try_block P cfg job worker s2 = ((Some ai, Inl ex), s5) \<and>
          snd s5 = snd s2 @
            [StartJobAttempt (job_id job) (worker_id_of worker),
             ReportPhase ''download'' ''fetching the input video from storage'',
             DownloadFile (input_bucket cfg) (v_input_object_key job) (local_video_path job)] \<and>
          p_mark_job_failed P (job_id job) (Some (attempt_id ai)) (Some ''worker_runtime_error'')
            (str_of_exc ex) (Some 1) (fst s5) = (r, w6) \<and>
          guarded P cfg job worker s2 =
            ((case r of Inl e1 \<Rightarrow> Inl e1 | Inr u \<Rightarrow> Inl ex), w6,
             snd s2 @
             [StartJobAttempt (job_id job) (worker_id_of worker),
              ReportPhase ''download'' ''fetching the input video from storage'',
              DownloadFile (input_bucket cfg) (v_input_object_key job) (local_video_path job),
              MarkJobFailed (job_id job) (Some (attempt_id ai)) (Some ''worker_runtime_error'')
                (str_of_exc ex) (Some 1)])"
proof -
  let ?req = "\<lparr> input_video_path = local_video_path job, output_dir = work_output_dir job,
                r_fps = fps job, keep_frames = keep_frames_for_debug cfg,
                r_model_id = model_id job \<rparr>"
  let ?e1 = "Exc FileNotFoundError (''input video not found: '' @ local_video_path job)"
  let ?e2 = "Exc ValueError ''fps must be greater than 0''"
  obtain ex where ex: "ex = ?e1 \<or> ex = ?e2" and cv: "convert_execute P ?req s5 = (Inl ex, s5)"
  proof (cases "p_path_exists P (local_video_path job) (fst s5)")
    case False
    then have "convert_execute P ?req s5 = (Inl ?e1, s5)"
      using convert_rejects_missing_input[of P ?req s5] by simp
    then show ?thesis using that by blast
  next
    case True
    with bad have "convert_execute P ?req s5 = (Inl ?e2, s5)"
      using convert_rejects_bad_fps[of P ?req s5] by simp
    then show ?thesis using that by blast
  qed
  from ex have isex: "is_Exception ex" by auto
  from rp dl cv have "after_start P cfg job ai s3 = (Inl ex, s5)"
    by (simp add: after_start_def pbind_def)
  with st have tb: "try_block P cfg job worker s2 = ((Some ai, Inl ex), s5)"
    by (simp add: try_block_def)
  from rp have "snd s4 = snd s3 @ [ReportPhase ''download'' ''fetching the input video from storage'']"
    unfolding report_phase_def by (rule invoke_trace)
  with invoke_trace[OF st] invoke_trace[OF dl] have tr: "snd s5 = snd s2 @
            [StartJobAttempt (job_id job) (worker_id_of worker),
             ReportPhase ''download'' ''fetching the input video from storage'',
             DownloadFile (input_bucket cfg) (v_input_object_key job) (local_video_path job)]"
    by simp
  from guarded_on_exception[OF tb isex] obtain r w6 where
    mf: "p_mark_job_failed P (job_id job) (map_option attempt_id (Some ai))
             (Some ''worker_runtime_error'') (str_of_exc ex) (Some 1) (fst s5) = (r, w6)"
    and g: "guarded P cfg job worker s2 =
             ((case r of Inl e1 \<Rightarrow> Inl e1 | Inr u \<Rightarrow> Inl ex), w6,
              snd s5 @ [MarkJobFailed (job_id job) (map_option attempt_id (Some ai))
                          (Some ''worker_runtime_error'') (str_of_exc ex) (Some 1)])"
    by blast
  from mf g tr ex tb show ?thesis by auto
qed

text \<open>
  Claim C9, as amended. Inside \<open>ConvertVideoToGlbUseCase.execute\<close> validation comes
  first: a request whose input path does not exist ends with \<open>FileNotFoundError\<close>, one
  whose path exists and whose frame rate is at most 0 with \<open>ValueError\<close>, and in both
  cases no port has been called and the world is as before. In the job pipeline the
  request is validated only after \<open>start_job_attempt\<close>, the download phase report and
  the storage download have returned; the failure is then recorded by exactly one
  \<open>mark_job_failed\<close> call, which carries the id of the started attempt, and no other
  port is called.
\<close>

theorem validation_fails_fast:
  "(\<not> p_path_exists P (input_video_path request) (fst s) \<longrightarrow>
      convert_execute P request s =
        (Inl (Exc FileNotFoundError (''input video not found: '' @ input_video_path request)), s))
   \<and> (p_path_exists P (input_video_path request) (fst s) \<and> float_le (r_fps request) (Finite 0) \<longrightarrow>
        convert_execute P request s = (Inl (Exc ValueError ''fps must be greater than 0''), s))
   \<and> (\<forall>x. float_le (Finite x) (Finite 0) \<longleftrightarrow> x \<le> 0)
   \<and> (\<forall>ai s3 s4 s5.
        invoke (StartJobAttempt (job_id job) (worker_id_of worker))
          (p_start_job_attempt P (job_id job) (worker_id_of worker)) s2 = (Inr ai, s3) \<and>
        report_phase P ''download'' ''fetching the input video from storage'' s3 = (Inr (), s4) \<and>
        invoke (DownloadFile (input_bucket cfg) (v_input_object_key job) (local_video_path job))
          (p_download_file P (input_bucket cfg) (v_input_object_key job)
             (local_video_path job)) s4 = (Inr (), s5) \<and>
        (\<not> p_path_exists P (local_video_path job) (fst s5) \<or> float_le (fps job) (Finite 0)) \<longrightarrow>
        (\<exists>ex r w6.
          (ex = Exc FileNotFoundError (''input video not found: '' @ local_video_path job) \<or>
           ex = Exc ValueError ''fps must be greater than 0'') \<and>
          try_block P cfg job worker s2 = ((Some ai, Inl ex), s5) \<and>
          snd s5 = snd s2 @
            [StartJobAttempt (job_id job) (worker_id_of worker),
             ReportPhase ''download'' ''fetching the input video from storage'',
             DownloadFile (input_bucket cfg) (v_input_object_key job) (local_video_path job)] \<and>
          p_mark_job_failed P (job_id job) (Some (attempt_id ai)) (Some ''worker_runtime_error'')
            (str_of_exc ex) (Some 1) (fst s5) = (r, w6) \<and>
          guarded P cfg job worker s2 =
            ((case r of Inl e1 \<Rightarrow> Inl e1 | Inr u \<Rightarrow> Inl ex), w6,
             snd s2 @
             [StartJobAttempt (job_id job) (worker_id_of worker),
              ReportPhase ''download'' ''fetching the input video from storage'',
              DownloadFile (input_bucket cfg) (v_input_object_key job) (local_video_path job),
              MarkJobFailed (job_id job) (Some (attempt_id ai)) (Some ''worker_runtime_error'')
                (str_of_exc ex) (Some 1)])))"
proof -
  have c1: "\<not> p_path_exists P (input_video_path request) (fst s) \<longrightarrow>
      convert_execute P request s =
        (Inl (Exc FileNotFoundError (''input video not found: '' @ input_video_path request)), s)"
    by (simp add: convert_rejects_missing_input)
  have c2: "p_path_exists P (input_video_path request) (fst s) \<and> float_le (r_fps request) (Finite 0) \<longrightarrow>
        convert_execute P request s = (Inl (Exc ValueError ''fps must be greater than 0''), s)"
    by (simp add: convert_rejects_bad_fps)
  have c3: "\<forall>x. float_le (Finite x) (Finite 0) \<longleftrightarrow> x \<le> 0" by simp
  have c4: "\<forall>ai s3 s4 s5.
        invoke (StartJobAttempt (job_id job) (worker_id_of worker))
          (p_start_job_attempt P (job_id job) (worker_id_of worker)) s2 = (Inr ai, s3) \<and>
        report_phase P ''download'' ''fetching the input video from storage'' s3 = (Inr (), s4) \<and>
        invoke (DownloadFile (input_bucket cfg) (v_input_object_key job) (local_video_path job))
          (p_download_file P (input_bucket cfg) (v_input_object_key job)
             (local_video_path job)) s4 = (Inr (), s5) \<and>
        (\<not> p_path_exists P (local_video_path job) (fst s5) \<or> float_le (fps job) (Finite 0)) \<longrightarrow>
        (\<exists>ex r w6.
          (ex = Exc FileNotFoundError (''input video not found: '' @ local_video_path job) \<or>
           ex = Exc ValueError ''fps must be greater than 0'') \<and>
          try_block P cfg job worker s2 = ((Some ai, Inl ex), s5) \<and>
          snd s5 = snd s2 @
            [StartJobAttempt (job_id job) (worker_id_of worker),
             ReportPhase ''download'' ''fetching the input video from storage'',
             DownloadFile (input_bucket cfg) (v_input_object_key job) (local_video_path job)] \<and>
          p_mark_job_failed P (job_id job) (Some (attempt_id ai)) (Some ''worker_runtime_error'')
            (str_of_exc ex) (Some 1) (fst s5) = (r, w6) \<and>
          guarded P cfg job worker s2 =
            ((case r of Inl e1 \<Rightarrow> Inl e1 | Inr u \<Rightarrow> Inl ex), w6,
             snd s2 @
             [StartJobAttempt (job_id job) (worker_id_of worker),
              ReportPhase ''download'' ''fetching the input video from storage'',
              DownloadFile (input_bucket cfg) (v_input_object_key job) (local_video_path job),
              MarkJobFailed (job_id job) (Some (attempt_id ai)) (Some ''worker_runtime_error'')
                (str_of_exc ex) (Some 1)]))"
  proof (intro allI impI)
    fix ai s3 s4 s5
    assume h: "invoke (StartJobAttempt (job_id job) (worker_id_of worker))
          (p_start_job_attempt P (job_id job) (worker_id_of worker)) s2 = (Inr ai, s3) \<and>
        report_phase P ''download'' ''fetching the input video from storage'' s3 = (Inr (), s4) \<and>
        invoke (DownloadFile (input_bucket cfg) (v_input_object_key job) (local_video_path job))
          (p_download_file P (input_bucket cfg) (v_input_object_key job)
             (local_video_path job)) s4 = (Inr (), s5) \<and>
        (\<not> p_path_exists P (local_video_path job) (fst s5) \<or> float_le (fps job) (Finite 0))"
    show "\<exists>ex r w6.
          (ex = Exc FileNotFoundError (''input video not found: '' @ local_video_path job) \<or>
           ex = Exc ValueError ''fps must be greater than 0'') \<and>
          try_block P cfg job worker s2 = ((Some ai, Inl ex), s5) \<and>
          snd s5 = snd s2 @
            [StartJobAttempt (job_id job) (worker_id_of worker),
             ReportPhase ''download'' ''fetching the input video from storage'',
             DownloadFile (input_bucket cfg) (v_input_object_key job) (local_video_path job)] \<and>
          p_mark_job_failed P (job_id job) (Some (attempt_id ai)) (Some ''worker_runtime_error'')
            (str_of_exc ex) (Some 1) (fst s5) = (r, w6) \<and>
          guarded P cfg job worker s2 =
            ((case r of Inl e1 \<Rightarrow> Inl e1 | Inr u \<Rightarrow> Inl ex), w6,
             snd s2 @
             [StartJobAttempt (job_id job) (worker_id_of worker),
              ReportPhase ''download'' ''fetching the input video from storage'',
              DownloadFile (input_bucket cfg) (v_input_object_key job) (local_video_path job),
              MarkJobFailed (job_id job) (Some (attempt_id ai)) (Some ''worker_runtime_error'')
                (str_of_exc ex) (Some 1)])"
      by (rule pipeline_validation_failure
            [OF h [THEN conjunct1] h [THEN conjunct2, THEN conjunct1]
                h [THEN conjunct2, THEN conjunct2, THEN conjunct1]
                h [THEN conjunct2, THEN conjunct2, THEN conjunct2]])
  qed
  show ?thesis by (intro conjI c1 c2 c3 c4)
qed

lemma pg_report_phase_returns: "fst (report_phase pg_ports phase message s) = Inr ()"
  by (cases s) (simp add: report_phase_def invoke_def pg_ports_def)

lemma pg_download_returns: "fst (invoke c (p_download_file pg_ports b k f) s) = Inr ()"
  by (cases s) (simp add: invoke_def pg_ports_def)

theorem validation_fails_fast_witness:
  "\<not> p_path_exists pg_ports (input_video_path request_missing) (fst (world0, []::call list)) \<and>
   convert_execute pg_ports request_missing (world0, []) =
     (Inl (Exc FileNotFoundError (''input video not found: '' @ input_video_path request_missing)),
      (world0, [])) \<and>
   p_path_exists pg_ports (input_video_path request_bad_fps) (fst (dirs_made (video_job_of job_lo))) \<and>
   float_le (r_fps request_bad_fps) (Finite 0) \<and>
   convert_execute pg_ports request_bad_fps (dirs_made (video_job_of job_lo)) =
     (Inl (Exc ValueError ''fps must be greater than 0''), dirs_made (video_job_of job_lo)) \<and>
   invoke (StartJobAttempt (job_id (video_job_of job_lo)) (worker_id_of worker0))
     (p_start_job_attempt pg_ports (job_id (video_job_of job_lo)) (worker_id_of worker0))
     (dirs_made (video_job_of job_lo)) = (Inr attempt1, started_lo) \<and>
   report_phase pg_ports ''download'' ''fetching the input video from storage'' started_lo =
     (Inr (), reported_lo) \<and>
   invoke (DownloadFile (input_bucket cfg0) (v_input_object_key (video_job_of job_lo))
             (local_video_path (video_job_of job_lo)))
     (p_download_file pg_ports (input_bucket cfg0) (v_input_object_key (video_job_of job_lo))
        (local_video_path (video_job_of job_lo)))
     reported_lo = (Inr (), downloaded_lo) \<and>
   float_le (fps (video_job_of job_lo)) (Finite 0) \<and>
   (\<exists>ex r w6.
      (ex = Exc FileNotFoundError (''input video not found: '' @ local_video_path (video_job_of job_lo)) \<or>
       ex = Exc ValueError ''fps must be greater than 0'') \<and>
      try_block pg_ports cfg0 (video_job_of job_lo) worker0 (dirs_made (video_job_of job_lo)) =
        ((Some attempt1, Inl ex), downloaded_lo) \<and>
      snd downloaded_lo = snd (dirs_made (video_job_of job_lo)) @
        [StartJobAttempt (job_id (video_job_of job_lo)) (worker_id_of worker0),
         ReportPhase ''download'' ''fetching the input video from storage'',
         DownloadFile (input_bucket cfg0) (v_input_object_key (video_job_of job_lo))
           (local_video_path (video_job_of job_lo))] \<and>
      p_mark_job_failed pg_ports (job_id (video_job_of job_lo)) (Some (attempt_id attempt1))
        (Some ''worker_runtime_error'') (str_of_exc ex) (Some 1) (fst downloaded_lo) = (r, w6) \<and>
      guarded pg_ports cfg0 (video_job_of job_lo) worker0 (dirs_made (video_job_of job_lo)) =
        ((case r of Inl e1 \<Rightarrow> Inl e1 | Inr u \<Rightarrow> Inl ex), w6,
         snd (dirs_made (video_job_of job_lo)) @
         [StartJobAttempt (job_id (video_job_of job_lo)) (worker_id_of worker0),
          ReportPhase ''download'' ''fetching the input video from storage'',
          DownloadFile (input_bucket cfg0) (v_input_object_key (video_job_of job_lo))
            (local_video_path (video_job_of job_lo)),
          MarkJobFailed (job_id (video_job_of job_lo)) (Some (attempt_id attempt1))
            (Some ''worker_runtime_error'') (str_of_exc ex) (Some 1)]))"
proof -
  let ?lo = "video_job_of job_lo"
  let ?s2 = "dirs_made ?lo"
  note A = validation_fails_fast [of pg_ports request_missing "(world0, [])" ?lo worker0 ?s2 cfg0]
  note B = validation_fails_fast [of pg_ports request_bad_fps ?s2 ?lo worker0 ?s2 cfg0]
  have h1: "\<not> p_path_exists pg_ports (input_video_path request_missing) (fst (world0, []::call list))"
    by (simp add: pg_ports_def request_missing_def world0_def)
  have h2: "p_path_exists pg_ports (input_video_path request_bad_fps) (fst ?s2)"
    by (simp add: pg_ports_def request_bad_fps_def dirs_made_def work_input_dir_def
        work_output_dir_def path_join_def video_job_of_def job_lo_def)
  have h3: "float_le (r_fps request_bad_fps) (Finite 0)" by (simp add: request_bad_fps_def)
  have "fst (invoke (StartJobAttempt (job_id ?lo) (worker_id_of worker0))
          (p_start_job_attempt pg_ports (job_id ?lo) (worker_id_of worker0)) ?s2) = Inr attempt1"
    by (simp add: run_eval dirs_made_def attempt1_def)
  then have h4: "invoke (StartJobAttempt (job_id ?lo) (worker_id_of worker0))
          (p_start_job_attempt pg_ports (job_id ?lo) (worker_id_of worker0)) ?s2 =
          (Inr attempt1, started_lo)"
    by (simp only: started_lo_def prod_eq_iff fst_conv snd_conv simp_thms)
  have "fst (report_phase pg_ports ''download'' ''fetching the input video from storage'' started_lo) = Inr ()"
    by (rule pg_report_phase_returns)
  then have h5: "report_phase pg_ports ''download'' ''fetching the input video from storage'' started_lo =
      (Inr (), reported_lo)"
    by (simp only: reported_lo_def prod_eq_iff fst_conv snd_conv simp_thms)
  have "fst (invoke (DownloadFile (input_bucket cfg0) (v_input_object_key ?lo) (local_video_path ?lo))
          (p_download_file pg_ports (input_bucket cfg0) (v_input_object_key ?lo)
             (local_video_path ?lo)) reported_lo) = Inr ()"
    by (rule pg_download_returns)
  then have h6: "invoke (DownloadFile (input_bucket cfg0) (v_input_object_key ?lo) (local_video_path ?lo))
          (p_download_file pg_ports (input_bucket cfg0) (v_input_object_key ?lo)
             (local_video_path ?lo)) reported_lo = (Inr (), downloaded_lo)"
    by (simp only: downloaded_lo_def prod_eq_iff fst_conv snd_conv simp_thms)
  have h7: "float_le (fps ?lo) (Finite 0)" by (simp add: video_job_of_def job_lo_def)
  then have h7': "\<not> p_path_exists pg_ports (local_video_path ?lo) (fst downloaded_lo) \<or>
      float_le (fps ?lo) (Finite 0)" by (rule disjI2)
  note r1 = A [THEN conjunct1, rule_format, OF h1]
  note r2 = B [THEN conjunct2, THEN conjunct1, rule_format, OF conjI [OF h2 h3]]
  note r3 = B [THEN conjunct2, THEN conjunct2, THEN conjunct2, rule_format,
      OF conjI [OF h4 conjI [OF h5 conjI [OF h6 h7']]]]
  show ?thesis by (intro conjI h1 r1 h2 h3 r2 h4 h5 h6 h7 r3)
qed

text \<open>
  The claim as worded fails in the job pipeline: for a job whose frame rate is 0 the
  \<open>ValueError\<close> comes after the attempt has been started and the video downloaded, and
  the attempts table has gained a row, now marked failed.
\<close>

theorem validation_fails_fast_counterexample:
  "float_le (fps (video_job_of job_lo)) (Finite 0) \<and>
   fst (execute pg_ports cfg0 (video_job_of job_lo) worker0 (world0, [])) =
     Inl (Exc ValueError ''fps must be greater than 0'') \<and>
   StartJobAttempt ''j1'' ''w1''
     \<in> set (snd (snd (execute pg_ports cfg0 (video_job_of job_lo) worker0 (world0, [])))) \<and>
   DownloadFile ''in'' ''in/b.mp4'' ''work/j1/input/source.mp4''
     \<in> set (snd (snd (execute pg_ports cfg0 (video_job_of job_lo) worker0 (world0, [])))) \<and>
   job_attempts (w_db world0) = [] \<and>
   map a_status (job_attempts (w_db (fst (snd
     (execute pg_ports cfg0 (video_job_of job_lo) worker0 (world0, [])))))) = [''failed'']"
  by (simp add: run_eval)

end
